theory Spec2Isabelle
  imports Main "HOL-Library.AList"
begin

section \<open>JavaScript values\<close>

text \<open>
  The two source files are \<^verbatim>\<open>src/index.js\<close> (the sigfox-aws framework functions) and
  \<^verbatim>\<open>src/sigfoxCallback/index.js\<close> (the Lambda function that receives the Sigfox callback).

  A JavaScript number is a double. The numbers of this program are integers, the two
  infinities and the not-a-number value: \<open>NumInt n\<close> is the double whose value is the
  integer \<open>n\<close>. Every integer of magnitude below \<open>2 ^ 53\<close> is a double; above, an
  operation rounds its exact result to the nearest double (\<open>roundDouble\<close> below). Zero
  and minus zero are one value: the program does not tell them apart.
\<close>

datatype jsnum = NumInt int | NumNaN | NumPosInf | NumNegInf

text \<open>
  The values of a parsed JSON body are strings, numbers, booleans and null. \<open>JFloat s\<close> is
  the number that \<^verbatim>\<open>parseFloat\<close> reads from the text \<open>s\<close>. Binary floating point is not
  interpreted: the value is kept as the text it was read from, and counts as truthy. The
  code never reads a field again after \<^verbatim>\<open>parseFloat\<close> has written it.
\<close>

datatype jsval =
    JUndefined
  | JNull
  | JBool bool
  | JNumber jsnum
  | JStr string
  | JFloat string

text \<open>
  An object is the list of its properties in insertion order, one per key. Assigning to a
  property that exists keeps its place, assigning to a new one appends it, as
  \<^const>\<open>AList.update\<close> does. Of a list that repeats a key only the first pair is a
  property: it is the one \<^const>\<open>map_of\<close> reads, and \<^const>\<open>AList.clearjunk\<close> drops
  the others.
\<close>

type_synonym obj = "(string \<times> jsval) list"

definition getProp :: "obj \<Rightarrow> string \<Rightarrow> jsval" where
  "getProp ob k = (case map_of ob k of None \<Rightarrow> JUndefined | Some v \<Rightarrow> v)"

text \<open>\<^verbatim>\<open>Object.assign(target, source)\<close>: every property of the source is assigned, in order.\<close>

definition objectAssign :: "obj \<Rightarrow> obj \<Rightarrow> obj" where
  "objectAssign target source =
     fold (\<lambda>(k, v). AList.update k v) (AList.clearjunk source) target"

subsection \<open>Strings\<close>

text \<open>
  A string is a sequence of code units below 256, that is of ASCII and Latin-1
  characters, compared by their code as JavaScript compares code units.

  \<^verbatim>\<open>toUpperCase\<close> maps \<open>a\<close> to \<open>z\<close> and the Latin-1 letters 224 to 254 (but the division
  sign, 247) to the letter 32 below, and the sharp s (223) to the two letters \<^verbatim>\<open>SS\<close>.
  The capitals of the micro sign (181) and of the y with diaeresis (255) are not code
  units below 256; these two characters are left as they are here. \<^verbatim>\<open>toLowerCase\<close> maps
  \<open>A\<close> to \<open>Z\<close> and the Latin-1 letters 192 to 222 (but the multiplication sign, 215) to the
  letter 32 above.
\<close>

definition charCode :: "char \<Rightarrow> int" where
  "charCode c = of_char c"

definition upperChars :: "char \<Rightarrow> string" where
  "upperChars c =
     (if (97 \<le> charCode c \<and> charCode c \<le> 122)
         \<or> (224 \<le> charCode c \<and> charCode c \<le> 254 \<and> charCode c \<noteq> 247)
      then [char_of (charCode c - 32)]
      else if charCode c = 223 then ''SS''
      else [c])"

definition lowerChar :: "char \<Rightarrow> char" where
  "lowerChar c =
     (if (65 \<le> charCode c \<and> charCode c \<le> 90)
         \<or> (192 \<le> charCode c \<and> charCode c \<le> 222 \<and> charCode c \<noteq> 215)
      then char_of (charCode c + 32)
      else c)"

definition toUpperCase :: "string \<Rightarrow> string" where
  "toUpperCase s = concat (map upperChars s)"

definition toLowerCase :: "string \<Rightarrow> string" where
  "toLowerCase s = map lowerChar s"

subsection \<open>Numbers and their text\<close>

text \<open>
  Rounding to the nearest double, ties to the even mantissa: a double has 53 bits of
  mantissa, so of a magnitude of \<open>53 + sh\<close> bits the lowest \<open>sh\<close> bits are rounded away. A
  result of \<open>2 ^ 1024\<close> or more is an infinity.
\<close>

function bitLength :: "int \<Rightarrow> nat" where
  "bitLength n = (if n \<le> 0 then 0 else Suc (bitLength (n div 2)))"
  by pat_completeness auto
termination
  by (relation "measure nat") auto

declare bitLength.simps [simp del]

definition roundMagnitude :: "int \<Rightarrow> int" where
  "roundMagnitude m =
     (if m < 2 ^ 53 then m
      else (if m mod 2 ^ (bitLength m - 53) > 2 ^ (bitLength m - 54)
               \<or> (m mod 2 ^ (bitLength m - 53) = 2 ^ (bitLength m - 54)
                   \<and> odd (m div 2 ^ (bitLength m - 53)))
            then m div 2 ^ (bitLength m - 53) + 1
            else m div 2 ^ (bitLength m - 53))
           * 2 ^ (bitLength m - 53))"

definition roundDouble :: "int \<Rightarrow> jsnum" where
  "roundDouble n =
     (if roundMagnitude (abs n) \<ge> 2 ^ 1024 then (if n < 0 then NumNegInf else NumPosInf)
      else NumInt (if n < 0 then - roundMagnitude (abs n) else roundMagnitude (abs n)))"

text \<open>The decimal digits of a number that is not negative.\<close>

function digitsOf :: "int \<Rightarrow> string" where
  "digitsOf n =
     (if n < 10 then [char_of (48 + n)]
      else digitsOf (n div 10) @ [char_of (48 + n mod 10)])"
  by pat_completeness auto
termination
  by (relation "measure nat") auto

declare digitsOf.simps [simp del]

text \<open>
  \<^verbatim>\<open>ToString\<close> of a number prints the decimal number with the fewest significant digits
  that still rounds to the double, and of several such the closest (of two equally
  close, the one whose last digit is even). \<open>shortestAt p x\<close> looks for it among the
  multiples of \<open>10 ^ p\<close> next to \<open>x\<close>, the largest \<open>p\<close> first. Below \<open>2 ^ 53\<close> no other
  integer rounds to the double, so all its digits are printed.
\<close>

fun shortestAt :: "nat \<Rightarrow> int \<Rightarrow> int" where
  "shortestAt 0 x = x"
| "shortestAt (Suc p) x =
     (if roundMagnitude ((x div 10 ^ Suc p) * 10 ^ Suc p) = x
         \<and> roundMagnitude ((x div 10 ^ Suc p) * 10 ^ Suc p + 10 ^ Suc p) = x
      then (if 2 * (x mod 10 ^ Suc p) < 10 ^ Suc p
               \<or> (2 * (x mod 10 ^ Suc p) = 10 ^ Suc p \<and> even (x div 10 ^ Suc p))
            then (x div 10 ^ Suc p) * 10 ^ Suc p
            else (x div 10 ^ Suc p) * 10 ^ Suc p + 10 ^ Suc p)
      else if roundMagnitude ((x div 10 ^ Suc p) * 10 ^ Suc p) = x
      then (x div 10 ^ Suc p) * 10 ^ Suc p
      else if roundMagnitude ((x div 10 ^ Suc p) * 10 ^ Suc p + 10 ^ Suc p) = x
      then (x div 10 ^ Suc p) * 10 ^ Suc p + 10 ^ Suc p
      else shortestAt p x)"

definition shortestDecimal :: "int \<Rightarrow> int" where
  "shortestDecimal x = (if x < 2 ^ 53 then x else shortestAt (length (digitsOf x) - 1) x)"

text \<open>
  From \<open>10 ^ 21\<close> on the number is printed with an exponent: the first significant digit,
  the others after a point, then \<^verbatim>\<open>e+\<close> and the exponent.
\<close>

definition significantDigits :: "string \<Rightarrow> string" where
  "significantDigits ds = rev (dropWhile (\<lambda>d. d = CHR ''0'') (rev ds))"

definition exponentForm :: "int \<Rightarrow> string" where
  "exponentForm c =
     (case significantDigits (digitsOf c) of
        [] \<Rightarrow> []
      | d # ds \<Rightarrow>
          (if ds = [] then [d] else d # CHR ''.'' # ds)
          @ ''e+'' @ digitsOf (int (length (digitsOf c)) - 1))"

definition positiveToString :: "int \<Rightarrow> string" where
  "positiveToString x =
     (if shortestDecimal x < 10 ^ 21 then digitsOf (shortestDecimal x)
      else exponentForm (shortestDecimal x))"

definition intToString :: "int \<Rightarrow> string" where
  "intToString i = (if i < 0 then CHR ''-'' # positiveToString (- i) else positiveToString i)"

definition numToString :: "jsnum \<Rightarrow> string" where
  "numToString x =
     (case x of
        NumInt i \<Rightarrow> intToString i
      | NumNaN \<Rightarrow> ''NaN''
      | NumPosInf \<Rightarrow> ''Infinity''
      | NumNegInf \<Rightarrow> ''-Infinity'')"

text \<open>\<^verbatim>\<open>ToString\<close>, as a template literal, a property key and \<^verbatim>\<open>parseInt\<close> apply it.\<close>

definition toStr :: "jsval \<Rightarrow> string" where
  "toStr v =
     (case v of
        JUndefined \<Rightarrow> ''undefined''
      | JNull \<Rightarrow> ''null''
      | JBool b \<Rightarrow> (if b then ''true'' else ''false'')
      | JNumber x \<Rightarrow> numToString x
      | JStr s \<Rightarrow> s
      | JFloat s \<Rightarrow> s)"

text \<open>Truthiness, as \<^verbatim>\<open>if (v)\<close>, \<^verbatim>\<open>!v\<close>, \<^verbatim>\<open>v || w\<close> and \<^verbatim>\<open>v && w\<close> test it.\<close>

definition truthy :: "jsval \<Rightarrow> bool" where
  "truthy v =
     (case v of
        JUndefined \<Rightarrow> False
      | JNull \<Rightarrow> False
      | JBool b \<Rightarrow> b
      | JNumber x \<Rightarrow> (case x of NumInt i \<Rightarrow> i \<noteq> 0 | NumNaN \<Rightarrow> False | _ \<Rightarrow> True)
      | JStr s \<Rightarrow> s \<noteq> []
      | JFloat s \<Rightarrow> True)"

text \<open>
  The white space that \<^verbatim>\<open>parseInt\<close> skips: tab, line feed, vertical tab, form feed, carriage
  return, space and the no-break space (160). The other white space of JavaScript has
  code units above 255.
\<close>

definition isWhiteSpace :: "char \<Rightarrow> bool" where
  "isWhiteSpace c =
     (charCode c = 32 \<or> (9 \<le> charCode c \<and> charCode c \<le> 13) \<or> charCode c = 160)"

definition isDigit :: "char \<Rightarrow> bool" where
  "isDigit c = (48 \<le> charCode c \<and> charCode c \<le> 57)"

definition digitsValue :: "string \<Rightarrow> int" where
  "digitsValue z = foldl (\<lambda>a c. 10 * a + (charCode c - 48)) 0 z"

text \<open>
  \<^verbatim>\<open>parseInt(s, 10)\<close> on a string: leading white space is skipped, one sign is read, then
  the longest run of decimal digits; no digit gives NaN. Whatever follows the digits is
  ignored. The result is the double nearest to the integer that the digits write (the
  language standard lets an implementation read the digits after the 20th as zeros; V8,
  which runs this code, rounds the whole number).
\<close>

definition parseIntStr :: "string \<Rightarrow> jsnum" where
  "parseIntStr s =
     (let s1 = dropWhile isWhiteSpace s;
          neg = (case s1 of [] \<Rightarrow> False | c # _ \<Rightarrow> c = CHR ''-'');
          s2 = (case s1 of [] \<Rightarrow> []
                | c # r \<Rightarrow> if c = CHR ''+'' \<or> c = CHR ''-'' then r else s1);
          z = takeWhile isDigit s2
      in if z = [] then NumNaN
         else roundDouble ((if neg then - 1 else 1) * digitsValue z))"

definition parseInt :: "jsval \<Rightarrow> jsnum" where
  "parseInt v = parseIntStr (toStr v)"

definition parseFloat :: "jsval \<Rightarrow> jsval" where
  "parseFloat v = JFloat (toStr v)"

text \<open>
  \<^verbatim>\<open>x * y\<close>, \<^verbatim>\<open>x - y\<close> and \<^verbatim>\<open>x > y\<close> on numbers. NaN makes a product and a difference NaN
  and a comparison false; so do an infinity times zero and the difference of an infinity
  and itself.
\<close>

fun jsSign :: "jsnum \<Rightarrow> int" where
  "jsSign (NumInt a) = sgn a"
| "jsSign NumPosInf = 1"
| "jsSign NumNegInf = - 1"
| "jsSign NumNaN = 0"

fun jsTimes :: "jsnum \<Rightarrow> jsnum \<Rightarrow> jsnum" where
  "jsTimes NumNaN y = NumNaN"
| "jsTimes x NumNaN = NumNaN"
| "jsTimes (NumInt a) (NumInt b) = roundDouble (a * b)"
| "jsTimes x y =
     (if jsSign x * jsSign y = 0 then NumNaN
      else if jsSign x * jsSign y > 0 then NumPosInf
      else NumNegInf)"

fun jsMinus :: "jsnum \<Rightarrow> jsnum \<Rightarrow> jsnum" where
  "jsMinus NumNaN y = NumNaN"
| "jsMinus x NumNaN = NumNaN"
| "jsMinus (NumInt a) (NumInt b) = roundDouble (a - b)"
| "jsMinus (NumInt a) NumPosInf = NumNegInf"
| "jsMinus (NumInt a) NumNegInf = NumPosInf"
| "jsMinus NumPosInf NumPosInf = NumNaN"
| "jsMinus NumPosInf y = NumPosInf"
| "jsMinus NumNegInf NumNegInf = NumNaN"
| "jsMinus NumNegInf y = NumNegInf"

fun jsGreater :: "jsnum \<Rightarrow> jsnum \<Rightarrow> bool" where
  "jsGreater NumNaN y = False"
| "jsGreater x NumNaN = False"
| "jsGreater (NumInt a) (NumInt b) = (a > b)"
| "jsGreater (NumInt a) NumPosInf = False"
| "jsGreater (NumInt a) NumNegInf = True"
| "jsGreater NumPosInf NumPosInf = False"
| "jsGreater NumPosInf y = True"
| "jsGreater NumNegInf y = False"

section \<open>Errors and promises\<close>

text \<open>
  Every \<^verbatim>\<open>throw\<close> of the two files is a constructor: \<open>TooOld\<close> is
  \<^verbatim>\<open>Error(`too_old: ${age}`)\<close> (the specification's StaleMessage),
  \<open>ResultNot8Bytes\<close> and \<open>InvalidHexDigit\<close> are the two errors of the downlink check (its
  InvalidDownlinkPayload), \<open>MissingDeviceId\<close> is \<^verbatim>\<open>Error('missing_deviceid')\<close>.
  \<open>TypeError\<close> is what the runtime raises on a property read from \<^verbatim>\<open>undefined\<close> or a call
  of a method that a value does not have. \<open>External\<close> is a failure reported by a
  collaborator (the queue transport).
\<close>

datatype error =
    TooOld jsnum
  | ResultNot8Bytes string
  | InvalidHexDigit char
  | MissingDeviceId
  | TypeError
  | External string

definition isInvalidDownlinkPayload :: "error \<Rightarrow> bool" where
  "isInvalidDownlinkPayload e =
     (case e of ResultNot8Bytes _ \<Rightarrow> True | InvalidHexDigit _ \<Rightarrow> True | _ \<Rightarrow> False)"

text \<open>
  A promise is modelled by the time at which it settles and the outcome it settles with.
\<close>

datatype 'a outcome = Resolved 'a | Rejected error

type_synonym 'a promise = "nat \<times> 'a outcome"

section \<open>Device ids\<close>

text \<open>
  \<^verbatim>\<open>createDevice\<close>, \<^verbatim>\<open>getDeviceState\<close> and \<^verbatim>\<open>updateDeviceState\<close> of \<^verbatim>\<open>src/index.js\<close> start
  with the same two statements, under the comment "Capitalise device ID but not device
  names":
  \<^verbatim>\<open>if (!device0) throw new Error('missing_deviceid');\<close>
  \<^verbatim>\<open>const device = device0.length > 6 ? device0 : device0.toUpperCase();\<close>
  and address the thing \<^verbatim>\<open>{ thingName: device }\<close>. On the string part:
\<close>

definition capitaliseDeviceId :: "string \<Rightarrow> string" where
  "capitaliseDeviceId device0 = (if length device0 > 6 then device0 else toUpperCase device0)"

definition thingName :: "jsval \<Rightarrow> error + string" where
  "thingName device0 =
     (if \<not> truthy device0 then Inl MissingDeviceId
      else case device0 of
             JStr s \<Rightarrow> Inr (capitaliseDeviceId s)
           | _ \<Rightarrow> Inl TypeError)"

text \<open>
  The three functions, each by the name of the thing it addresses or the error it throws
  before any request is made. The requests themselves (\<^verbatim>\<open>describeThing\<close>,
  \<^verbatim>\<open>createThing\<close>, \<^verbatim>\<open>getThingShadow\<close>, \<^verbatim>\<open>updateThingShadow\<close>) go to AWS IoT.
\<close>

definition createDevice :: "jsval \<Rightarrow> error + string" where
  "createDevice device0 = thingName device0"

definition getDeviceState :: "jsval \<Rightarrow> error + string" where
  "getDeviceState device0 = thingName device0"

definition updateDeviceState :: "jsval \<Rightarrow> error + string" where
  "updateDeviceState device0 = thingName device0"

text \<open>
  \<^verbatim>\<open>main\<close> of \<^verbatim>\<open>src/sigfoxCallback/index.js\<close> builds the body and the device id of the
  message envelope:
  \<^verbatim>\<open>const body = Object.assign({ uuid: uuid0, datetime, localdatetime, callbackTimestamp }, req.body);\<close>
  \<^verbatim>\<open>const device = (body.device && typeof body.device === 'string')\<close>
  \<^verbatim>\<open>  ? body.device.toUpperCase()\<close>
  \<^verbatim>\<open>  : req.query.device ? req.query.device.toUpperCase() : null;\<close>
  The request body is null for a queue request, and the query may be missing.
\<close>

definition mainBody :: "jsval \<Rightarrow> jsval \<Rightarrow> jsval \<Rightarrow> jsval \<Rightarrow> obj option \<Rightarrow> obj" where
  "mainBody uuid0 datetime localdatetime callbackTimestamp reqBody =
     objectAssign
       [(''uuid'', uuid0), (''datetime'', datetime), (''localdatetime'', localdatetime),
        (''callbackTimestamp'', callbackTimestamp)]
       (case reqBody of None \<Rightarrow> [] | Some b \<Rightarrow> b)"

definition isString :: "jsval \<Rightarrow> bool" where
  "isString v = (case v of JStr _ \<Rightarrow> True | _ \<Rightarrow> False)"

text \<open>\<^verbatim>\<open>req.query.device ? req.query.device.toUpperCase() : null\<close>\<close>

definition queryDevice :: "obj option \<Rightarrow> error + jsval" where
  "queryDevice query =
     (case query of
        None \<Rightarrow> Inl TypeError
      | Some q \<Rightarrow>
          if truthy (getProp q ''device'')
          then (case getProp q ''device'' of
                  JStr d \<Rightarrow> Inr (JStr (toUpperCase d))
                | _ \<Rightarrow> Inl TypeError)
          else Inr JNull)"

definition mainDevice :: "obj \<Rightarrow> obj option \<Rightarrow> error + jsval" where
  "mainDevice body query =
     (if truthy (getProp body ''device'') \<and> isString (getProp body ''device'')
      then Inr (JStr (toUpperCase (toStr (getProp body ''device''))))
      else queryDevice query)"

text \<open>\<^verbatim>\<open>const type = (req.query && req.query.type) || null;\<close>\<close>

definition mainType :: "obj option \<Rightarrow> jsval" where
  "mainType query =
     (case query of
        None \<Rightarrow> JNull
      | Some q \<Rightarrow> if truthy (getProp q ''type'') then getProp q ''type'' else JNull)"

section \<open>The store\<close>

text \<open>
  Objects live in a store and are passed by address, so that a write through one
  reference is seen through every other reference to the same object. A new object gets
  the next free address. An address that is not allocated stands for a missing
  (\<^verbatim>\<open>undefined\<close>) argument.
\<close>

type_synonym addr = nat

type_synonym heap = "obj list"

definition objectAt :: "heap \<Rightarrow> addr \<Rightarrow> obj option" where
  "objectAt h a = (if a < length h then Some (h ! a) else None)"

definition getField :: "heap \<Rightarrow> addr \<Rightarrow> string \<Rightarrow> jsval" where
  "getField h a k = (case objectAt h a of None \<Rightarrow> JUndefined | Some ob \<Rightarrow> getProp ob k)"

text \<open>The property \<open>k\<close> of the object at \<open>a\<close>, when the object has it.\<close>

definition lookupField :: "heap \<Rightarrow> addr \<Rightarrow> string \<Rightarrow> jsval option" where
  "lookupField h a k = (case objectAt h a of None \<Rightarrow> None | Some ob \<Rightarrow> map_of ob k)"

definition setField :: "heap \<Rightarrow> addr \<Rightarrow> string \<Rightarrow> jsval \<Rightarrow> heap" where
  "setField h a k v =
     (case objectAt h a of None \<Rightarrow> h | Some ob \<Rightarrow> h[a := AList.update k v ob])"

definition deleteField :: "heap \<Rightarrow> addr \<Rightarrow> string \<Rightarrow> heap" where
  "deleteField h a k =
     (case objectAt h a of None \<Rightarrow> h | Some ob \<Rightarrow> h[a := AList.delete k ob])"

definition newAddr :: "heap \<Rightarrow> addr" where
  "newAddr h = length h"

text \<open>
  \<^verbatim>\<open>Object.assign({}, body0)\<close>: the copy is stored at \<open>newAddr h\<close>; a missing source is
  skipped.
\<close>

definition cloneObject :: "heap \<Rightarrow> addr \<Rightarrow> heap" where
  "cloneObject h a0 =
     h @ [objectAssign [] (case objectAt h a0 of None \<Rightarrow> [] | Some ob \<Rightarrow> ob)]"

text \<open>A block of statements runs them in order, each on the store the one before left.\<close>

definition runStatements :: "(heap \<Rightarrow> heap) list \<Rightarrow> heap \<Rightarrow> heap" where
  "runStatements statements h = fold (\<lambda>statement. statement) statements h"

section \<open>The field normalizer: \<^verbatim>\<open>parseBool\<close> and \<^verbatim>\<open>parseSIGFOXMessage\<close>\<close>

definition parseBool :: "jsval \<Rightarrow> bool" where
  "parseBool s = (s = JStr ''true'')"

text \<open>The statement \<^verbatim>\<open>if (body.k) body.k = f(body.k);\<close> on the object at \<open>body\<close>.\<close>

definition convertField :: "(jsval \<Rightarrow> jsval) \<Rightarrow> string \<Rightarrow> addr \<Rightarrow> heap \<Rightarrow> heap" where
  "convertField f k body h =
     (if truthy (getField h body k) then setField h body k (f (getField h body k)) else h)"

text \<open>
  The block \<^verbatim>\<open>if (body.time) { ... delete body.time; }\<close>. The number \<open>t\<close> that the first
  assignment writes to \<^verbatim>\<open>body.time\<close> is what the next two statements read back.
\<close>

definition convertTime :: "addr \<Rightarrow> heap \<Rightarrow> heap" where
  "convertTime body h =
     (if truthy (getField h body ''time'') then
        (let t = parseInt (getField h body ''time'')
         in runStatements
              [\<lambda>h. setField h body ''time'' (JNumber t),
               \<lambda>h. setField h body ''timestamp'' (JStr (numToString (jsTimes t (NumInt 1000)))),
               \<lambda>h. setField h body ''baseStationTime'' (JNumber t),
               \<lambda>h. deleteField h body ''time'']
              h)
      else h)"

text \<open>The statements of \<^verbatim>\<open>parseSIGFOXMessage\<close> after the copy, on the object at \<open>body\<close>.\<close>

definition convertFields :: "addr \<Rightarrow> (heap \<Rightarrow> heap) list" where
  "convertFields body =
     [convertTime body,
      convertField (\<lambda>v. JBool (parseBool v)) ''duplicate'' body,
      convertField parseFloat ''snr'' body,
      convertField parseFloat ''avgSnr'' body,
      convertField (\<lambda>v. JNumber (parseInt v)) ''lat'' body,
      convertField (\<lambda>v. JNumber (parseInt v)) ''lng'' body,
      convertField parseFloat ''rssi'' body,
      convertField (\<lambda>v. JNumber (parseInt v)) ''seqNumber'' body,
      convertField (\<lambda>v. JBool (parseBool v)) ''ack'' body,
      convertField (\<lambda>v. JBool (parseBool v)) ''longPolling'' body]"

text \<open>\<^verbatim>\<open>parseSIGFOXMessage\<close> returns the store it leaves and the address of \<^verbatim>\<open>body\<close>.\<close>

definition parseSIGFOXMessage :: "heap \<Rightarrow> addr \<Rightarrow> heap \<times> addr" where
  "parseSIGFOXMessage h body0 =
     (runStatements (convertFields (newAddr h)) (cloneObject h body0), newAddr h)"

subsection \<open>The normalizer on one object\<close>

text \<open>
  What the statements above do to the object they run on, as functions on that object.
  \<open>parseSIGFOXMessage_store\<close> below shows that \<open>parseSIGFOXMessage\<close> stores
  \<open>normalizedBody\<close> of its argument at the new address.
\<close>

definition convertProp :: "(jsval \<Rightarrow> jsval) \<Rightarrow> string \<Rightarrow> obj \<Rightarrow> obj" where
  "convertProp f k ob =
     (if truthy (getProp ob k) then AList.update k (f (getProp ob k)) ob else ob)"

definition convertTimeProp :: "obj \<Rightarrow> obj" where
  "convertTimeProp ob =
     (if truthy (getProp ob ''time'') then
        AList.delete ''time''
          (AList.update ''baseStationTime'' (JNumber (parseInt (getProp ob ''time'')))
            (AList.update ''timestamp''
               (JStr (numToString (jsTimes (parseInt (getProp ob ''time'')) (NumInt 1000))))
               (AList.update ''time'' (JNumber (parseInt (getProp ob ''time''))) ob)))
      else ob)"

definition sourceObject :: "heap \<Rightarrow> addr \<Rightarrow> obj" where
  "sourceObject h a = (case objectAt h a of None \<Rightarrow> [] | Some ob \<Rightarrow> ob)"

definition normalizedBody :: "obj \<Rightarrow> obj" where
  "normalizedBody ob =
     fold (\<lambda>statement. statement)
       [convertTimeProp,
        convertProp (\<lambda>v. JBool (parseBool v)) ''duplicate'',
        convertProp parseFloat ''snr'',
        convertProp parseFloat ''avgSnr'',
        convertProp (\<lambda>v. JNumber (parseInt v)) ''lat'',
        convertProp (\<lambda>v. JNumber (parseInt v)) ''lng'',
        convertProp parseFloat ''rssi'',
        convertProp (\<lambda>v. JNumber (parseInt v)) ''seqNumber'',
        convertProp (\<lambda>v. JBool (parseBool v)) ''ack'',
        convertProp (\<lambda>v. JBool (parseBool v)) ''longPolling'']
       (objectAssign [] ob)"

section \<open>The freshness guard of \<^verbatim>\<open>task\<close>\<close>

text \<open>
  \<^verbatim>\<open>if (isAWS && body.baseStationTime) {\<close>
  \<^verbatim>\<open>  const baseStationTime = parseInt(body.baseStationTime, 10);\<close>
  \<^verbatim>\<open>  const age = Date.now() - (baseStationTime * 1000);\<close>
  \<^verbatim>\<open>  if (age > 5 * 60 * 1000) throw new Error(`too_old: ${age}`);\<close>
  \<^verbatim>\<open>}\<close>
  \<open>now\<close> is the value of \<^verbatim>\<open>Date.now()\<close>.
\<close>

definition messageAge :: "int \<Rightarrow> jsval \<Rightarrow> jsnum" where
  "messageAge now bst = jsMinus (NumInt now) (jsTimes (parseInt bst) (NumInt 1000))"

definition freshnessGuard :: "bool \<Rightarrow> int \<Rightarrow> jsval \<Rightarrow> error + unit" where
  "freshnessGuard isAWS now bst =
     (if isAWS \<and> truthy bst then
        (let age = messageAge now bst
         in if jsGreater age (NumInt (5 * 60 * 1000)) then Inl (TooOld age) else Inr ())
      else Inr ())"

section \<open>The queues and the fan-out of \<^verbatim>\<open>saveMessage\<close>\<close>

record queue =
  qdevice :: jsval
  qtype :: jsval

text \<open>
  The first half of \<^verbatim>\<open>saveMessage\<close>: \<^verbatim>\<open>{ device: 'all' }\<close>, \<^verbatim>\<open>{ type }\<close> and \<^verbatim>\<open>{ device }\<close> on
  Google Cloud, \<^verbatim>\<open>{ device: null, type: null }\<close> on AWS. A field that an object
  literal leaves out reads as \<^verbatim>\<open>undefined\<close>.
\<close>

definition resolveQueues :: "bool \<Rightarrow> bool \<Rightarrow> jsval \<Rightarrow> jsval \<Rightarrow> queue list" where
  "resolveQueues isGoogleCloud isAWS device type0 =
     (if isGoogleCloud then
        [\<lparr>qdevice = JStr ''all'', qtype = JUndefined\<rparr>]
        @ (if truthy type0 then [\<lparr>qdevice = JUndefined, qtype = type0\<rparr>] else [])
        @ (if truthy device then [\<lparr>qdevice = device, qtype = JUndefined\<rparr>] else [])
      else if isAWS then [\<lparr>qdevice = JNull, qtype = JNull\<rparr>]
      else [])"

record message =
  msgDevice :: jsval
  msgType :: jsval
  msgBody :: addr
  msgQuery :: "obj option"
  msgRootTraceId :: jsval
  isDispatched :: jsval

text \<open>
  \<^verbatim>\<open>scloud\<close> is the package sigfox-gcloud on Google Cloud, sigfox-aws on AWS, and \<^verbatim>\<open>null\<close>
  when neither flag is set. Its functions \<^verbatim>\<open>publishMessage\<close> and \<^verbatim>\<open>updateMessageHistory\<close>
  come from the package sigfox-iot-cloud and are parameters here. \<^verbatim>\<open>publishMessage\<close> is
  taken as its callers use it: it returns a promise, on which \<^verbatim>\<open>.catch\<close> is called. A
  publish is observed as a call \<open>(message, device, type)\<close> appended to the log of calls;
  when its promise settles, and with what, is given by the transport, which sees the
  calls made before; every promise of the transport is taken to settle. Times are
  counted from the call of \<^verbatim>\<open>saveMessage\<close>, whose loop starts every publish. Logging
  (\<^verbatim>\<open>scloud.log\<close>) returns and is not recorded.
\<close>

type_synonym publishCall = "message \<times> jsval \<times> jsval"

type_synonym transport = "publishCall list \<Rightarrow> publishCall \<Rightarrow> jsval promise"

text \<open>
  \<^verbatim>\<open>.catch((error) => { scloud.log(...); return error; })\<close>: the new promise settles when
  the old one does, and is resolved, with the value or with the error.
\<close>

definition suppressError :: "jsval promise \<Rightarrow> (error + jsval) promise" where
  "suppressError p =
     (fst p, Resolved (case snd p of Resolved v \<Rightarrow> Inr v | Rejected e \<Rightarrow> Inl e))"

text \<open>The loop \<^verbatim>\<open>for (const queue of queues)\<close>: one publish per queue, its error suppressed.\<close>

fun publishLoop ::
  "transport \<Rightarrow> message \<Rightarrow> queue list \<Rightarrow> publishCall list
     \<Rightarrow> publishCall list \<times> (error + jsval) promise list" where
  "publishLoop tr m [] calls = (calls, [])"
| "publishLoop tr m (q # qs) calls =
     (let call = (m, qdevice q, qtype q);
          promise = suppressError (tr calls call);
          (calls', promises) = publishLoop tr m qs (calls @ [call])
      in (calls', promise # promises))"

text \<open>
  \<^verbatim>\<open>Promise.all\<close>. When a promise of the list is rejected, the result is rejected with the
  first rejection, at the time of that rejection. When none is, the result is resolved
  with the values of all, at the time the last of them settles (at once for the empty
  list).
\<close>

fun firstRejection :: "'a promise list \<Rightarrow> (nat \<times> error) option" where
  "firstRejection [] = None"
| "firstRejection (p # ps) =
     (case snd p of
        Resolved v \<Rightarrow> firstRejection ps
      | Rejected e \<Rightarrow>
          (case firstRejection ps of
             None \<Rightarrow> Some (fst p, e)
           | Some r \<Rightarrow> if fst r < fst p then Some r else Some (fst p, e)))"

fun resolvedValues :: "'a promise list \<Rightarrow> 'a list" where
  "resolvedValues [] = []"
| "resolvedValues (p # ps) =
     (case snd p of
        Resolved v \<Rightarrow> v # resolvedValues ps
      | Rejected e \<Rightarrow> resolvedValues ps)"

definition lastSettled :: "'a promise list \<Rightarrow> nat" where
  "lastSettled ps = foldr (\<lambda>p t. max (fst p) t) ps 0"

definition promiseAll :: "'a promise list \<Rightarrow> 'a list promise" where
  "promiseAll ps =
     (case firstRejection ps of
        Some r \<Rightarrow> (fst r, Rejected (snd r))
      | None \<Rightarrow> (lastSettled ps, Resolved (resolvedValues ps)))"

text \<open>\<^verbatim>\<open>p.then(f)\<close> for a handler that returns a value.\<close>

definition thenValue :: "'a promise \<Rightarrow> ('a \<Rightarrow> 'b) \<Rightarrow> 'b promise" where
  "thenValue p f =
     (fst p, case snd p of Resolved v \<Rightarrow> Resolved (f v) | Rejected e \<Rightarrow> Rejected e)"

text \<open>
  The second half of \<^verbatim>\<open>saveMessage\<close>, from \<^verbatim>\<open>const promises = []\<close> on. The last handler,
  \<^verbatim>\<open>.catch((error) => { throw error; })\<close>, leaves the promise as it is.
\<close>

definition dispatch ::
  "transport \<Rightarrow> message \<Rightarrow> queue list \<Rightarrow> publishCall list
     \<Rightarrow> publishCall list \<times> message promise" where
  "dispatch tr m queues calls =
     (let (calls', promises) = publishLoop tr m queues calls
      in (calls', thenValue (promiseAll promises) (\<lambda>_. m\<lparr>isDispatched := JBool True\<rparr>)))"

text \<open>
  \<^verbatim>\<open>saveMessage\<close> returns the log of calls and either the error it throws or the promise
  it returns. Its first statement is \<^verbatim>\<open>scloud.log(...)\<close>, which throws a TypeError when
  \<^verbatim>\<open>scloud\<close> is \<^verbatim>\<open>null\<close>.
\<close>

definition saveMessage ::
  "bool \<Rightarrow> bool \<Rightarrow> (message \<Rightarrow> jsval \<Rightarrow> message) \<Rightarrow> transport \<Rightarrow> publishCall list
     \<Rightarrow> obj option \<Rightarrow> jsval \<Rightarrow> jsval \<Rightarrow> addr \<Rightarrow> jsval
     \<Rightarrow> publishCall list \<times> (error + message promise)" where
  "saveMessage isGoogleCloud isAWS updateMessageHistory tr calls query device type0 body rootTraceId =
     (if \<not> isGoogleCloud \<and> \<not> isAWS then (calls, Inl TypeError)
      else
        (let message0 = \<lparr>msgDevice = device, msgType = type0, msgBody = body, msgQuery = query,
                         msgRootTraceId = rootTraceId, isDispatched = JUndefined\<rparr>;
             m = updateMessageHistory message0 device;
             queues = resolveQueues isGoogleCloud isAWS device type0
         in (fst (dispatch tr m queues calls), Inr (snd (dispatch tr m queues calls)))))"

section \<open>The downlink response: \<^verbatim>\<open>getResponse\<close>\<close>

datatype downlink = NoData | DownlinkData string

type_synonym response = "(string \<times> downlink) list"

text \<open>
  The test of the loop over the characters of the lower-cased result:
  \<^verbatim>\<open>s[0] < '0' || s[0] > 'f' || (s[0] > '9' && s[0] < 'a')\<close>
\<close>

definition invalidHexDigit :: "char \<Rightarrow> bool" where
  "invalidHexDigit c =
     (charCode c < charCode CHR ''0'' \<or> charCode c > charCode CHR ''f''
      \<or> (charCode c > charCode CHR ''9'' \<and> charCode c < charCode CHR ''a''))"

fun checkHexDigits :: "string \<Rightarrow> error + unit" where
  "checkHexDigits [] = Inr ()"
| "checkHexDigits (c # cs) =
     (if invalidHexDigit c then Inl (InvalidHexDigit c) else checkHexDigits cs)"

definition validateResult :: "string \<Rightarrow> error + unit" where
  "validateResult result =
     (if length result \<noteq> 16 then Inl (ResultNot8Bytes result)
      else checkHexDigits (toLowerCase result))"

text \<open>
  \<^verbatim>\<open>getResponse\<close> for a given \<^verbatim>\<open>result\<close>. The key \<^verbatim>\<open>response[device]\<close> is the device as a
  string.
\<close>

definition getResponseWith :: "string \<Rightarrow> jsval \<Rightarrow> obj \<Rightarrow> error + response" where
  "getResponseWith result device0 body =
     (let device = (if truthy device0 then device0 else JStr ''missing_device'')
      in if getProp body ''ack'' = JBool False \<or> getProp body ''ack'' = JStr ''false''
         then Inr (AList.update (toStr device) NoData [])
         else (case validateResult result of
                 Inl e \<Rightarrow> Inl e
               | Inr _ \<Rightarrow> Inr (AList.update (toStr device) (DownlinkData result) [])))"

text \<open>The result is hard-coded: \<^verbatim>\<open>const result = '0123456789abcdef';\<close>\<close>

definition getResponse :: "jsval \<Rightarrow> obj \<Rightarrow> error + response" where
  "getResponse device0 body = getResponseWith ''0123456789abcdef'' device0 body"

text \<open>What the specification says of a valid payload: 16 characters drawn from \<open>[0-9a-f]\<close>.\<close>

definition specHexPayload :: "string \<Rightarrow> bool" where
  "specHexPayload s = (length s = 16 \<and> (\<forall>c \<in> set s. c \<in> set ''0123456789abcdef''))"

section \<open>\<^verbatim>\<open>task\<close>\<close>

text \<open>
  \<^verbatim>\<open>task\<close> normalizes the body, runs the freshness guard, and only then calls
  \<^verbatim>\<open>saveMessage\<close>. A \<^verbatim>\<open>throw\<close> of the guard or of \<^verbatim>\<open>saveMessage\<close> leaves \<^verbatim>\<open>task\<close> before
  it has a promise to return: the result is \<open>Inl\<close> of the error. Otherwise the promise
  that \<^verbatim>\<open>task\<close> returns resolves to \<^verbatim>\<open>result\<close>, the message that \<^verbatim>\<open>saveMessage\<close> resolved
  with, or \<^verbatim>\<open>null\<close> when it rejected. The handlers between (\<^verbatim>\<open>getResponse\<close>, whose outcome
  the next handler drops, the log, \<^verbatim>\<open>endTask\<close> and the HTTP response) publish nothing.
\<close>

definition task ::
  "bool \<Rightarrow> bool \<Rightarrow> int \<Rightarrow> (message \<Rightarrow> jsval \<Rightarrow> message) \<Rightarrow> transport \<Rightarrow> publishCall list
     \<Rightarrow> heap \<Rightarrow> obj option \<Rightarrow> jsval \<Rightarrow> addr \<Rightarrow> jsval \<Rightarrow> jsval
     \<Rightarrow> publishCall list \<times> (error + message option)" where
  "task isGoogleCloud isAWS now updateMessageHistory tr calls h query device body0 type0 rootTraceId =
     (case parseSIGFOXMessage h body0 of
        (h1, body) \<Rightarrow>
          (case freshnessGuard isAWS now (getField h1 body ''baseStationTime'') of
             Inl e \<Rightarrow> (calls, Inl e)
           | Inr _ \<Rightarrow>
               (case saveMessage isGoogleCloud isAWS updateMessageHistory tr calls
                       query device type0 body rootTraceId of
                  (calls', Inl e) \<Rightarrow> (calls', Inl e)
                | (calls', Inr p) \<Rightarrow>
                    (calls', Inr (case snd p of Resolved newMessage \<Rightarrow> Some newMessage
                                  | Rejected _ \<Rightarrow> None)))))"

section \<open>Lemmas\<close>

subsection \<open>Objects and the store\<close>

lemma map_of_fold_update:
  "distinct (map fst source) \<Longrightarrow>
   map_of (fold (\<lambda>(k, v). AList.update k v) source target) = map_of target ++ map_of source"
proof (induction source arbitrary: target)
  case Nil
  then show ?case by simp
next
  case (Cons p source)
  obtain a b where p: "p = (a, b)" by (cases p)
  from Cons.prems p have fresh: "map_of source a = None" and d: "distinct (map fst source)"
    by (auto simp: map_of_eq_None_iff)
  have "map_of (fold (\<lambda>(k, v). AList.update k v) (p # source) target)
      = map_of (AList.update a b target) ++ map_of source"
    using Cons.IH [OF d] p by simp
  also have "\<dots> = map_of target ++ map_of (p # source)"
    using fresh p by (auto simp: update_conv' map_add_def fun_eq_iff split: option.splits)
  finally show ?case .
qed

lemma map_of_objectAssign: "map_of (objectAssign target source) = map_of target ++ map_of source"
  by (simp add: objectAssign_def map_of_fold_update distinct_clearjunk map_of_clearjunk)

lemma objectAt_new: "objectAt (h @ [ob]) (length h) = Some ob"
  by (simp add: objectAt_def)

lemma objectAt_old: "a < length h \<Longrightarrow> objectAt (h @ [ob]) a = objectAt h a"
  by (simp add: objectAt_def nth_append)

lemma getField_new: "getField (h @ [ob]) (length h) k = getProp ob k"
  by (simp add: getField_def objectAt_new)

lemma setField_new: "setField (h @ [ob]) (length h) k v = h @ [AList.update k v ob]"
  by (simp add: setField_def objectAt_new)

lemma deleteField_new: "deleteField (h @ [ob]) (length h) k = h @ [AList.delete k ob]"
  by (simp add: deleteField_def objectAt_new)

lemma convertField_new: "convertField f k (length h) (h @ [ob]) = h @ [convertProp f k ob]"
  by (simp add: convertField_def convertProp_def getField_new setField_new)

lemma convertTime_new: "convertTime (length h) (h @ [ob]) = h @ [convertTimeProp ob]"
  by (simp add: convertTime_def convertTimeProp_def runStatements_def Let_def
      getField_new setField_new deleteField_new)

text \<open>
  \<open>parseSIGFOXMessage\<close> leaves every object of the store as it was and adds one, the
  normalized copy of its argument.
\<close>

lemma parseSIGFOXMessage_store:
  "parseSIGFOXMessage h body0 = (h @ [normalizedBody (sourceObject h body0)], length h)"
  by (simp add: parseSIGFOXMessage_def convertFields_def runStatements_def newAddr_def
      cloneObject_def normalizedBody_def sourceObject_def convertField_new convertTime_new)

lemma lookupField_source: "lookupField h a k = map_of (sourceObject h a) k"
  by (simp add: lookupField_def sourceObject_def split: option.splits)

lemma lookupField_new: "lookupField (h @ [ob]) (length h) k = map_of ob k"
  by (simp add: lookupField_def objectAt_new)

lemma getField_lookupField:
  "getField h a k = (case lookupField h a k of None \<Rightarrow> JUndefined | Some v \<Rightarrow> v)"
  by (simp add: getField_def lookupField_def getProp_def split: option.splits)

subsection \<open>The normalizer, property by property\<close>

lemma map_of_convertProp:
  "map_of (convertProp f k ob) k' =
     (if k' = k then map_option (\<lambda>v. if truthy v then f v else v) (map_of ob k)
      else map_of ob k')"
  by (auto simp: convertProp_def getProp_def update_conv' truthy_def split: option.splits)

lemma map_of_convertProp_other: "k' \<noteq> k \<Longrightarrow> map_of (convertProp f k ob) k' = map_of ob k'"
  by (simp add: map_of_convertProp)

lemma map_of_convertTimeProp_other:
  "k' \<noteq> ''time'' \<Longrightarrow> k' \<noteq> ''timestamp'' \<Longrightarrow> k' \<noteq> ''baseStationTime'' \<Longrightarrow>
   map_of (convertTimeProp ob) k' = map_of ob k'"
  by (simp add: convertTimeProp_def update_conv' delete_conv')

lemma map_of_convertTimeProp_time:
  "map_of (convertTimeProp ob) ''time'' =
     (case map_of ob ''time'' of None \<Rightarrow> None | Some v \<Rightarrow> if truthy v then None else Some v)"
  by (auto simp: convertTimeProp_def getProp_def delete_conv' truthy_def split: option.splits)

lemma map_of_convertTimeProp_baseStationTime:
  "map_of (convertTimeProp ob) ''baseStationTime'' =
     (if truthy (getProp ob ''time'') then Some (JNumber (parseInt (getProp ob ''time'')))
      else map_of ob ''baseStationTime'')"
  by (simp add: convertTimeProp_def update_conv' delete_conv')

lemma normalizedBody_bool:
  assumes "k = ''duplicate'' \<or> k = ''ack'' \<or> k = ''longPolling''"
  shows "map_of (normalizedBody ob) k =
           map_option (\<lambda>v. if truthy v then JBool (parseBool v) else v) (map_of ob k)"
  using assms
  by (auto simp: normalizedBody_def map_of_convertProp map_of_convertTimeProp_other
      map_of_objectAssign)

lemma normalizedBody_time:
  "map_of (normalizedBody ob) ''time'' =
     (case map_of ob ''time'' of None \<Rightarrow> None | Some v \<Rightarrow> if truthy v then None else Some v)"
  by (simp add: normalizedBody_def map_of_convertProp_other map_of_convertTimeProp_time
      map_of_objectAssign)

lemma normalizedBody_baseStationTime:
  "map_of (normalizedBody ob) ''baseStationTime'' =
     (if truthy (getProp ob ''time'') then Some (JNumber (parseInt (getProp ob ''time'')))
      else map_of ob ''baseStationTime'')"
  by (simp add: normalizedBody_def map_of_convertProp_other map_of_convertTimeProp_baseStationTime
      map_of_objectAssign getProp_def)

subsection \<open>Characters and numbers\<close>

lemma charCode_char_of: "0 \<le> n \<Longrightarrow> n < 256 \<Longrightarrow> charCode (char_of n) = n"
  by (simp add: charCode_def)

lemma char_of_charCode: "char_of (charCode c) = c"
  by (simp add: charCode_def)

lemma isDigit_digit: "0 \<le> d \<Longrightarrow> d < 10 \<Longrightarrow> isDigit (char_of (48 + (d::int)))"
  by (simp add: isDigit_def charCode_char_of)

lemma digitsOf_digits: "0 \<le> n \<Longrightarrow> c \<in> set (digitsOf n) \<Longrightarrow> isDigit c"
proof (induction n arbitrary: c rule: digitsOf.induct)
  case (1 n)
  show ?case
  proof (cases "n < 10")
    case True
    with "1.prems" show ?thesis
      by (simp add: digitsOf.simps [of n] isDigit_digit)
  next
    case False
    then have eq: "digitsOf n = digitsOf (n div 10) @ [char_of (48 + n mod 10)]"
      by (simp add: digitsOf.simps [of n])
    from "1.prems" have nn: "0 \<le> n div 10" by simp
    have last: "isDigit (char_of (48 + n mod 10))"
      by (rule isDigit_digit) simp_all
    from "1.prems" eq consider "c \<in> set (digitsOf (n div 10))" | "c = char_of (48 + n mod 10)"
      by auto
    then show ?thesis
      using "1.IH" [OF False nn] last by cases auto
  qed
qed

lemma digitsOf_nonempty: "digitsOf n \<noteq> []"
  by (simp add: digitsOf.simps [of n])

lemma digitsValue_snoc: "digitsValue (z @ [c]) = 10 * digitsValue z + (charCode c - 48)"
  by (simp add: digitsValue_def)

lemma digitsValue_digitsOf: "0 \<le> n \<Longrightarrow> digitsValue (digitsOf n) = n"
proof (induction n rule: digitsOf.induct)
  case (1 n)
  show ?case
  proof (cases "n < 10")
    case True
    with "1.prems" show ?thesis
      by (simp add: digitsOf.simps [of n] digitsValue_def charCode_char_of)
  next
    case False
    then have eq: "digitsOf n = digitsOf (n div 10) @ [char_of (48 + n mod 10)]"
      by (simp add: digitsOf.simps [of n])
    from "1.prems" have nn: "0 \<le> n div 10" by simp
    have "charCode (char_of (48 + n mod 10)) = 48 + n mod 10"
      by (rule charCode_char_of) simp_all
    then show ?thesis
      using "1.IH" [OF False nn] by (simp add: eq digitsValue_snoc)
  qed
qed

lemma takeWhile_digitsOf: "0 \<le> n \<Longrightarrow> takeWhile isDigit (digitsOf n) = digitsOf n"
  by (simp add: takeWhile_eq_all_conv digitsOf_digits)

lemma digit_not_space: "isDigit c \<Longrightarrow> \<not> isWhiteSpace c"
  by (auto simp: isDigit_def isWhiteSpace_def)

lemma digit_not_sign: "isDigit c \<Longrightarrow> c \<noteq> CHR ''+'' \<and> c \<noteq> CHR ''-''"
  by (auto simp: isDigit_def charCode_def)

lemma parseIntStr_digitsOf:
  assumes "0 \<le> n"
  shows "parseIntStr (digitsOf n) = roundDouble n"
proof -
  obtain c cs where cs: "digitsOf n = c # cs"
    using digitsOf_nonempty [of n] by (cases "digitsOf n") auto
  then have "isDigit c"
    using digitsOf_digits [OF assms, of c] by simp
  then have c: "\<not> isWhiteSpace c" "c \<noteq> CHR ''+''" "c \<noteq> CHR ''-''"
    using digit_not_space digit_not_sign by auto
  have tw: "takeWhile isDigit (c # cs) = c # cs"
    using takeWhile_digitsOf [OF assms] cs by simp
  have dv: "digitsValue (c # cs) = n"
    using digitsValue_digitsOf [OF assms] cs by simp
  show ?thesis
    unfolding cs parseIntStr_def Let_def
    by (simp add: c tw dv del: takeWhile.simps)
qed

lemma parseIntStr_minus_digitsOf:
  assumes "0 < n"
  shows "parseIntStr (CHR ''-'' # digitsOf n) = roundDouble (- n)"
proof -
  from assms have nn: "0 \<le> n" by simp
  have sp: "\<not> isWhiteSpace CHR ''-''"
    by (simp add: isWhiteSpace_def charCode_def)
  have tw: "takeWhile isDigit (digitsOf n) = digitsOf n"
    by (rule takeWhile_digitsOf [OF nn])
  show ?thesis
    by (simp add: parseIntStr_def Let_def sp tw digitsValue_digitsOf [OF nn] digitsOf_nonempty)
qed

text \<open>Below \<open>2 ^ 53\<close> nothing is rounded and every digit is printed.\<close>

lemma roundDouble_exact: "abs n < 2 ^ 53 \<Longrightarrow> roundDouble n = NumInt n"
  by (simp add: roundDouble_def roundMagnitude_def)

lemma positiveToString_exact: "x < 2 ^ 53 \<Longrightarrow> positiveToString x = digitsOf x"
  by (simp add: positiveToString_def shortestDecimal_def)

lemma intToString_exact:
  "abs n < 2 ^ 53 \<Longrightarrow>
   intToString n = (if n < 0 then CHR ''-'' # digitsOf (- n) else digitsOf n)"
  by (simp add: intToString_def positiveToString_exact)

text \<open>
  \<^verbatim>\<open>parseInt\<close> of a number that is an integer below \<open>2 ^ 53\<close> gives the number back. (From
  \<open>10 ^ 21\<close> on it does not: the text has an exponent, and \<^verbatim>\<open>parseInt\<close> stops at the point
  or at the \<^verbatim>\<open>e\<close>.)
\<close>

lemma parseInt_NumInt:
  assumes "abs n < 2 ^ 53"
  shows "parseInt (JNumber (NumInt n)) = NumInt n"
proof (cases "n < 0")
  case True
  then show ?thesis
    using parseIntStr_minus_digitsOf [of "- n"] assms
    by (simp add: parseInt_def toStr_def numToString_def intToString_exact roundDouble_exact)
next
  case False
  then show ?thesis
    using parseIntStr_digitsOf [of n] assms
    by (simp add: parseInt_def toStr_def numToString_def intToString_exact roundDouble_exact)
qed

lemma parseInt_exponent: "parseInt (JNumber (NumInt 1000000000000000000000)) = NumInt 1"
  by code_simp

lemma parseInt_NumNaN: "parseInt (JNumber NumNaN) = NumNaN"
  by (simp add: parseInt_def toStr_def numToString_def parseIntStr_def isWhiteSpace_def
      isDigit_def charCode_def)

lemma parseIntStr_empty: "parseIntStr [] = NumNaN"
  by (simp add: parseIntStr_def)

lemma jsTimes_exact:
  "abs (a * b) < 2 ^ 53 \<Longrightarrow> jsTimes (NumInt a) (NumInt b) = NumInt (a * b)"
  by (simp add: roundDouble_exact)

lemma jsMinus_exact:
  "abs (a - b) < 2 ^ 53 \<Longrightarrow> jsMinus (NumInt a) (NumInt b) = NumInt (a - b)"
  by (simp add: roundDouble_exact)

subsection \<open>Upper case\<close>

lemma upperChars_fixed: "c' \<in> set (upperChars c) \<Longrightarrow> upperChars c' = [c']"
  by (auto simp: upperChars_def charCode_char_of charCode_def split: if_splits)

lemma upperChars_nonempty: "upperChars c \<noteq> []"
  by (simp add: upperChars_def)

lemma toUpperCase_fixed: "(\<And>c. c \<in> set s \<Longrightarrow> upperChars c = [c]) \<Longrightarrow> toUpperCase s = s"
  by (induction s) (simp_all add: toUpperCase_def)

lemma toUpperCase_append: "toUpperCase (s @ t) = toUpperCase s @ toUpperCase t"
  by (simp add: toUpperCase_def)

lemma toUpperCase_idem: "toUpperCase (toUpperCase s) = toUpperCase s"
proof (induction s)
  case Nil
  then show ?case by (simp add: toUpperCase_def)
next
  case (Cons c s)
  have "toUpperCase (upperChars c) = upperChars c"
    by (rule toUpperCase_fixed) (rule upperChars_fixed)
  moreover have "toUpperCase (c # s) = upperChars c @ toUpperCase s"
    by (simp add: toUpperCase_def)
  ultimately show ?case
    using Cons.IH by (simp add: toUpperCase_append)
qed

lemma toUpperCase_empty: "toUpperCase s = [] \<longleftrightarrow> s = []"
  by (cases s) (simp_all add: toUpperCase_def upperChars_nonempty)

text \<open>
  The rule of \<open>createDevice\<close>, \<open>getDeviceState\<close> and \<open>updateDeviceState\<close> is idempotent, and
  so is the upper-casing of \<open>main\<close>.
\<close>

lemma capitaliseDeviceId_idem:
  "capitaliseDeviceId (capitaliseDeviceId x) = capitaliseDeviceId x"
  by (simp add: capitaliseDeviceId_def toUpperCase_idem)

lemma capitaliseDeviceId_short: "length x \<le> 6 \<Longrightarrow> capitaliseDeviceId x = toUpperCase x"
  by (simp add: capitaliseDeviceId_def)

lemma capitaliseDeviceId_long: "length x > 6 \<Longrightarrow> capitaliseDeviceId x = x"
  by (simp add: capitaliseDeviceId_def)

subsection \<open>The downlink payload check\<close>

lemma char_of_hex_codes:
  "char_of (48::int) = CHR ''0''" "char_of (49::int) = CHR ''1''" "char_of (50::int) = CHR ''2''"
  "char_of (51::int) = CHR ''3''" "char_of (52::int) = CHR ''4''" "char_of (53::int) = CHR ''5''"
  "char_of (54::int) = CHR ''6''" "char_of (55::int) = CHR ''7''" "char_of (56::int) = CHR ''8''"
  "char_of (57::int) = CHR ''9''" "char_of (97::int) = CHR ''a''" "char_of (98::int) = CHR ''b''"
  "char_of (99::int) = CHR ''c''" "char_of (100::int) = CHR ''d''" "char_of (101::int) = CHR ''e''"
  "char_of (102::int) = CHR ''f''"
  by code_simp+

lemma valid_hex_digit_codes:
  assumes "\<not> invalidHexDigit c"
  shows "charCode c \<in> {48, 49, 50, 51, 52, 53, 54, 55, 56, 57, 97, 98, 99, 100, 101, 102}"
proof -
  from assms have "(48 \<le> charCode c \<and> charCode c \<le> 57) \<or> (97 \<le> charCode c \<and> charCode c \<le> 102)"
    by (auto simp: invalidHexDigit_def charCode_def)
  then have "charCode c = 48 \<or> charCode c = 49 \<or> charCode c = 50 \<or> charCode c = 51
      \<or> charCode c = 52 \<or> charCode c = 53 \<or> charCode c = 54 \<or> charCode c = 55
      \<or> charCode c = 56 \<or> charCode c = 57 \<or> charCode c = 97 \<or> charCode c = 98
      \<or> charCode c = 99 \<or> charCode c = 100 \<or> charCode c = 101 \<or> charCode c = 102"
    by arith
  then show ?thesis by simp
qed

lemma invalidHexDigit_iff: "invalidHexDigit c \<longleftrightarrow> c \<notin> set ''0123456789abcdef''"
proof
  assume "invalidHexDigit c"
  then show "c \<notin> set ''0123456789abcdef''"
    by (auto simp: invalidHexDigit_def charCode_def)
next
  assume notin: "c \<notin> set ''0123456789abcdef''"
  show "invalidHexDigit c"
  proof (rule ccontr)
    assume "\<not> invalidHexDigit c"
    then have "charCode c \<in> {48, 49, 50, 51, 52, 53, 54, 55, 56, 57, 97, 98, 99, 100, 101, 102}"
      by (rule valid_hex_digit_codes)
    then have "char_of (charCode c) \<in> set ''0123456789abcdef''"
      by (auto simp: char_of_hex_codes)
    with notin show False by (simp add: char_of_charCode)
  qed
qed

lemma checkHexDigits_ok: "checkHexDigits s = Inr () \<longleftrightarrow> (\<forall>c \<in> set s. \<not> invalidHexDigit c)"
  by (induction s) auto

lemma checkHexDigits_error:
  "checkHexDigits s = Inl e \<Longrightarrow> \<exists>c \<in> set s. invalidHexDigit c \<and> e = InvalidHexDigit c"
  by (induction s) (auto split: if_splits)

lemma length_toLowerCase: "length (toLowerCase s) = length s"
  by (simp add: toLowerCase_def)

lemma validateResult_ok: "validateResult p = Inr () \<longleftrightarrow> specHexPayload (toLowerCase p)"
  by (auto simp: validateResult_def specHexPayload_def checkHexDigits_ok length_toLowerCase
      invalidHexDigit_iff simp del: set_simps list.set)

lemma validateResult_error: "validateResult p = Inl e \<Longrightarrow> isInvalidDownlinkPayload e"
  by (auto simp: validateResult_def isInvalidDownlinkPayload_def dest: checkHexDigits_error
      split: if_splits)

lemma validateResult_cases: "validateResult p = Inr () \<or> (\<exists>e. validateResult p = Inl e)"
  by (cases "validateResult p") auto

subsection \<open>The fan-out\<close>

lemma publishLoop_calls:
  "fst (publishLoop tr m queues calls) = calls @ map (\<lambda>q. (m, qdevice q, qtype q)) queues"
  by (induction queues arbitrary: calls) (simp_all add: Let_def case_prod_beta)

lemma publishLoop_length: "length (snd (publishLoop tr m queues calls)) = length queues"
  by (induction queues arbitrary: calls) (simp_all add: Let_def case_prod_beta)

lemma publishLoop_nth:
  "i < length queues \<Longrightarrow>
   snd (publishLoop tr m queues calls) ! i =
     suppressError
       (tr (calls @ map (\<lambda>q. (m, qdevice q, qtype q)) (take i queues))
           (m, qdevice (queues ! i), qtype (queues ! i)))"
proof (induction queues arbitrary: calls i)
  case Nil
  then show ?case by simp
next
  case (Cons q queues)
  show ?case
  proof (cases i)
    case 0
    then show ?thesis by (simp add: Let_def case_prod_beta)
  next
    case (Suc j)
    with Cons.prems have "j < length queues" by simp
    from Cons.IH [OF this, of "calls @ [(m, qdevice q, qtype q)]"] Suc
    show ?thesis by (simp add: Let_def case_prod_beta)
  qed
qed

lemma suppressError_resolved: "\<exists>v. snd (suppressError p) = Resolved v"
  by (simp add: suppressError_def)

lemma publishLoop_resolved:
  "p \<in> set (snd (publishLoop tr m queues calls)) \<Longrightarrow> \<exists>v. snd p = Resolved v"
  by (induction queues arbitrary: calls)
    (auto simp: Let_def case_prod_beta suppressError_def)

lemma firstRejection_none:
  "(\<And>p. p \<in> set ps \<Longrightarrow> \<exists>v. snd p = Resolved v) \<Longrightarrow> firstRejection ps = None"
proof (induction ps)
  case Nil
  then show ?case by simp
next
  case (Cons p ps)
  from Cons.prems [of p] obtain v where "snd p = Resolved v" by auto
  moreover from Cons have "firstRejection ps = None" by simp
  ultimately show ?case by simp
qed

lemma resolvedValues_all:
  "(\<And>p. p \<in> set ps \<Longrightarrow> \<exists>v. snd p = Resolved v) \<Longrightarrow>
   map Resolved (resolvedValues ps) = map snd ps"
proof (induction ps)
  case Nil
  then show ?case by simp
next
  case (Cons p ps)
  from Cons.prems [of p] obtain v where "snd p = Resolved v" by auto
  moreover from Cons have "map Resolved (resolvedValues ps) = map snd ps" by simp
  ultimately show ?case by simp
qed

lemma lastSettled_ge: "p \<in> set ps \<Longrightarrow> fst p \<le> lastSettled ps"
  by (induction ps) (auto simp: lastSettled_def)

lemma lastSettled_mem: "ps \<noteq> [] \<Longrightarrow> lastSettled ps \<in> fst ` set ps"
proof (induction ps)
  case Nil
  then show ?case by simp
next
  case (Cons p ps)
  show ?case
  proof (cases "ps = []")
    case True
    then show ?thesis by (simp add: lastSettled_def)
  next
    case False
    with Cons.IH have "lastSettled ps \<in> fst ` set ps" by simp
    moreover have "lastSettled (p # ps) = max (fst p) (lastSettled ps)"
      by (simp add: lastSettled_def)
    ultimately show ?thesis by (auto simp: max_def)
  qed
qed

lemma promiseAll_resolved:
  "(\<And>p. p \<in> set ps \<Longrightarrow> \<exists>v. snd p = Resolved v) \<Longrightarrow>
   promiseAll ps = (lastSettled ps, Resolved (resolvedValues ps))"
  by (simp add: promiseAll_def firstRejection_none)

lemma publishLoop_awaited:
  "promiseAll (snd (publishLoop tr m queues calls)) =
     (lastSettled (snd (publishLoop tr m queues calls)),
      Resolved (resolvedValues (snd (publishLoop tr m queues calls))))"
  by (rule promiseAll_resolved) (rule publishLoop_resolved)

lemma publishLoop_values:
  "map Resolved (resolvedValues (snd (publishLoop tr m queues calls)))
     = map snd (snd (publishLoop tr m queues calls))"
  by (rule resolvedValues_all) (rule publishLoop_resolved)

lemma dispatch_result:
  "dispatch tr m queues calls =
     (calls @ map (\<lambda>q. (m, qdevice q, qtype q)) queues,
      (lastSettled (snd (publishLoop tr m queues calls)),
       Resolved (m\<lparr>isDispatched := JBool True\<rparr>)))"
  using publishLoop_calls [of tr m queues calls] publishLoop_awaited [of tr m queues calls]
  by (simp add: dispatch_def case_prod_beta thenValue_def)

lemma saveMessage_calls:
  "fst (saveMessage isGoogleCloud isAWS updateMessageHistory tr calls query device type0 body
          rootTraceId)
   = calls @ map (\<lambda>q. (updateMessageHistory
                          \<lparr>msgDevice = device, msgType = type0, msgBody = body,
                           msgQuery = query, msgRootTraceId = rootTraceId,
                           isDispatched = JUndefined\<rparr> device,
                        qdevice q, qtype q))
               (resolveQueues isGoogleCloud isAWS device type0)"
  by (simp add: saveMessage_def Let_def dispatch_result resolveQueues_def)

lemma saveMessage_result:
  assumes "isGoogleCloud \<or> isAWS"
  shows "saveMessage isGoogleCloud isAWS updateMessageHistory tr calls query device type0 body
           rootTraceId =
     (let m = updateMessageHistory
                \<lparr>msgDevice = device, msgType = type0, msgBody = body, msgQuery = query,
                 msgRootTraceId = rootTraceId, isDispatched = JUndefined\<rparr> device;
          queues = resolveQueues isGoogleCloud isAWS device type0
      in (calls @ map (\<lambda>q. (m, qdevice q, qtype q)) queues,
          Inr (lastSettled (snd (publishLoop tr m queues calls)),
               Resolved (m\<lparr>isDispatched := JBool True\<rparr>))))"
  using assms by (auto simp: saveMessage_def Let_def dispatch_result)

lemma saveMessage_no_scloud:
  "saveMessage False False updateMessageHistory tr calls query device type0 body rootTraceId
     = (calls, Inl TypeError)"
  by (simp add: saveMessage_def)

subsection \<open>\<open>task\<close>: the guard first, then the fan-out\<close>

lemma task_rejected:
  assumes "parseSIGFOXMessage h body0 = (h1, body)"
    and "freshnessGuard isAWS now (getField h1 body ''baseStationTime'') = Inl e"
  shows "task isGoogleCloud isAWS now updateMessageHistory tr calls h query device body0 type0
           rootTraceId = (calls, Inl e)"
  using assms by (simp add: task_def)

lemma task_passed:
  assumes "parseSIGFOXMessage h body0 = (h1, body)"
    and "freshnessGuard isAWS now (getField h1 body ''baseStationTime'') = Inr ()"
    and "isGoogleCloud \<or> isAWS"
  shows "task isGoogleCloud isAWS now updateMessageHistory tr calls h query device body0 type0
           rootTraceId =
         (let m = updateMessageHistory
                    \<lparr>msgDevice = device, msgType = type0, msgBody = body, msgQuery = query,
                     msgRootTraceId = rootTraceId, isDispatched = JUndefined\<rparr> device
          in (calls @ map (\<lambda>q. (m, qdevice q, qtype q))
                        (resolveQueues isGoogleCloud isAWS device type0),
              Inr (Some (m\<lparr>isDispatched := JBool True\<rparr>))))"
  using assms(1,2) by (simp add: task_def saveMessage_result [OF assms(3)] Let_def)

lemma messageAge_exact:
  assumes "parseInt bst = NumInt n"
    and "abs (n * 1000) < 2 ^ 53"
    and "abs (now - n * 1000) < 2 ^ 53"
  shows "messageAge now bst = NumInt (now - n * 1000)"
proof -
  have "jsTimes (parseInt bst) (NumInt 1000) = NumInt (n * 1000)"
    using assms(1,2) by (simp add: roundDouble_exact)
  then show ?thesis
    using assms(3) by (simp add: messageAge_def roundDouble_exact)
qed

lemma messageAge_NumNaN: "messageAge now (JNumber NumNaN) = NumNaN"
  by (simp add: messageAge_def parseInt_NumNaN)

text \<open>
  The non-mutation half of the normalizer's contract: the store that \<open>parseSIGFOXMessage\<close>
  leaves is the store it was given, every object in its place and unchanged, followed by
  one new object, the output.
\<close>

lemma parseSIGFOXMessage_frame:
  assumes "parseSIGFOXMessage h body0 = (h1, body)"
  shows "body = length h
    \<and> length h1 = Suc (length h)
    \<and> take (length h) h1 = h
    \<and> (\<forall>a < length h. objectAt h1 a = objectAt h a)"
  using assms by (auto simp: parseSIGFOXMessage_store objectAt_old)

text \<open>
  A number of \<open>10 ^ 21\<close> or more is printed with an exponent, and \<^verbatim>\<open>parseInt\<close> then reads its
  first digit only: for the time \<^verbatim>\<open>"1000000000000000000000"\<close> the guard computes the age
  from 1 and throws.
\<close>

lemma freshnessGuard_exponent:
  "parseSIGFOXMessage [[(''time'', JStr ''1000000000000000000000'')]] 0
     = ([[(''time'', JStr ''1000000000000000000000'')],
         [(''timestamp'', JStr ''1e+24''),
          (''baseStationTime'', JNumber (NumInt 1000000000000000000000))]], 1)
   \<and> freshnessGuard True 1511714827000 (JNumber (NumInt 1000000000000000000000))
       = Inl (TooOld (NumInt 1511714826000))"
  by code_simp

text \<open>A no-break space before the digits is skipped.\<close>

lemma parseIntStr_no_break_space: "parseIntStr (CHR 0xA0 # ''5'') = NumInt 5"
  by code_simp

section \<open>The claims\<close>

text \<open>
  C1. The claim: device id normalization, as shared by the message envelope and the
  device-shadow operations, upper-cases an id of length at most 6, leaves a longer one
  unchanged, and is idempotent.

  The device-shadow operations do so (\<open>capitaliseDeviceId_short\<close>,
  \<open>capitaliseDeviceId_long\<close>, \<open>capitaliseDeviceId_idem\<close>). \<open>main\<close>, which builds the
  envelope, upper-cases every device id, whatever its length: for the body
  \<^verbatim>\<open>{"device": "weather1"}\<close> the envelope names the device \<^verbatim>\<open>WEATHER1\<close>, while
  \<open>createDevice\<close>, \<open>getDeviceState\<close> and \<open>updateDeviceState\<close> called with \<^verbatim>\<open>weather1\<close>
  address the thing \<^verbatim>\<open>weather1\<close>, and called with the envelope's id address another
  thing, \<^verbatim>\<open>WEATHER1\<close>.
\<close>

theorem main_upper_cases_device_names:
  "mainDevice (mainBody JNull JNull JNull JNull (Some [(''device'', JStr ''weather1'')])) None
     = Inr (JStr ''WEATHER1'')
   \<and> createDevice (JStr ''weather1'') = Inr ''weather1''
   \<and> getDeviceState (JStr ''weather1'') = Inr ''weather1''
   \<and> updateDeviceState (JStr ''weather1'') = Inr ''weather1''
   \<and> getDeviceState (JStr ''WEATHER1'') = Inr ''WEATHER1''"
  by code_simp

text \<open>
  C2. The claim: for every message with \<open>baseStationTime\<close> present, the freshness guard
  computes \<open>age = now - baseStationTime * 1000\<close> and rejects the message if and only if
  \<open>age > 300000\<close>; at exactly 300000 it does not reject.

  As stated it fails off AWS. The guard is behind \<^verbatim>\<open>isAWS && ...\<close>: on Google Cloud a
  message of any age passes.
\<close>

theorem freshness_guard_skipped_counterexample:
  "freshnessGuard False 1511714827000 (JNumber (NumInt 1000000000)) = Inr ()
   \<and> messageAge 1511714827000 (JNumber (NumInt 1000000000)) = NumInt 511714827000
   \<and> jsGreater (NumInt 511714827000) (NumInt 300000)"
  by code_simp

text \<open>
  C2, amended. On AWS, for every truthy \<open>baseStationTime\<close>: the guard throws \<open>too_old\<close>
  with the age if and only if the age, \<open>now - parseInt(baseStationTime) * 1000\<close> in the
  arithmetic of doubles, is above 300000, and passes otherwise. When \<open>baseStationTime\<close>
  reads as the integer \<open>n\<close>, and \<open>n * 1000\<close> and \<open>now - n * 1000\<close> are of magnitude below
  \<open>2 ^ 53\<close> (the time stamps of this era are), the arithmetic is exact: the age is
  \<open>now - n * 1000\<close>, the guard throws if and only if \<open>now - n * 1000 > 300000\<close>, and passes
  at exactly 300000; and the number \<open>n\<close> that the normalizer stored reads as \<open>n\<close>. Off AWS
  the guard rejects nothing.
\<close>

theorem freshness_guard_on_aws:
  assumes "truthy bst"
  shows "(freshnessGuard True now bst = Inl (TooOld (messageAge now bst))
           \<longleftrightarrow> jsGreater (messageAge now bst) (NumInt 300000))
    \<and> (freshnessGuard True now bst = Inr ()
           \<longleftrightarrow> \<not> jsGreater (messageAge now bst) (NumInt 300000))
    \<and> (parseInt bst = NumInt n \<and> abs (n * 1000) < 2 ^ 53 \<and> abs (now - n * 1000) < 2 ^ 53
         \<longrightarrow> messageAge now bst = NumInt (now - n * 1000)
             \<and> (freshnessGuard True now bst = Inl (TooOld (NumInt (now - n * 1000)))
                  \<longleftrightarrow> now - n * 1000 > 300000)
             \<and> (freshnessGuard True now bst = Inr () \<longleftrightarrow> now - n * 1000 \<le> 300000)
             \<and> parseInt (JNumber (NumInt n)) = NumInt n)
    \<and> freshnessGuard False now' bst' = Inr ()"
proof -
  have general: "(freshnessGuard True now bst = Inl (TooOld (messageAge now bst))
           \<longleftrightarrow> jsGreater (messageAge now bst) (NumInt 300000))
    \<and> (freshnessGuard True now bst = Inr ()
           \<longleftrightarrow> \<not> jsGreater (messageAge now bst) (NumInt 300000))"
    using assms by (simp add: freshnessGuard_def Let_def)
  have exact: "messageAge now bst = NumInt (now - n * 1000)
      \<and> (freshnessGuard True now bst = Inl (TooOld (NumInt (now - n * 1000)))
           \<longleftrightarrow> now - n * 1000 > 300000)
      \<and> (freshnessGuard True now bst = Inr () \<longleftrightarrow> now - n * 1000 \<le> 300000)
      \<and> parseInt (JNumber (NumInt n)) = NumInt n"
    if p: "parseInt bst = NumInt n" and r: "abs (n * 1000) < 2 ^ 53"
      and a: "abs (now - n * 1000) < 2 ^ 53"
  proof -
    have age: "messageAge now bst = NumInt (now - n * 1000)"
      by (rule messageAge_exact [OF p r a])
    have small: "abs n < 2 ^ 53"
      using r by simp
    show ?thesis
      using assms by (simp add: age freshnessGuard_def Let_def parseInt_NumInt [OF small])
  qed
  have off: "freshnessGuard False now' bst' = Inr ()"
    by (simp add: freshnessGuard_def)
  show ?thesis
    by (intro conjI impI; (elim conjE)?) (use general exact off in \<open>simp_all\<close>)
qed

theorem freshness_guard_on_aws_witness:
  "freshnessGuard True 1511715127000 (JNumber (NumInt 1511714827)) = Inr ()
   \<and> freshnessGuard True 1511715127001 (JNumber (NumInt 1511714827))
       = Inl (TooOld (NumInt 300001))"
proof -
  have t: "truthy (JNumber (NumInt 1511714827))"
    and p: "parseInt (JNumber (NumInt 1511714827)) = NumInt 1511714827"
    by code_simp+
  have r: "abs ((1511714827::int) * 1000) < 2 ^ 53"
    and a0: "abs ((1511715127000::int) - 1511714827 * 1000) < 2 ^ 53"
    and a1: "abs ((1511715127001::int) - 1511714827 * 1000) < 2 ^ 53"
    by simp_all
  from freshness_guard_on_aws [OF t, of 1511715127000 1511714827,
      THEN conjunct2, THEN conjunct2, THEN conjunct1, THEN mp, OF conjI [OF p conjI [OF r a0]]]
    freshness_guard_on_aws [OF t, of 1511715127001 1511714827,
      THEN conjunct2, THEN conjunct2, THEN conjunct1, THEN mp, OF conjI [OF p conjI [OF r a1]]]
  show ?thesis by simp
qed

text \<open>
  C3. \<^verbatim>\<open>publishMessage\<close> is taken by its interface: every call returns a promise, which
  settles, resolved or rejected; a failure of a publish is a rejection of its promise.
  For every list of queues, whatever the transport answers and whenever it answers:
  each publish is called, in the order of the list; the promise kept for the queue at
  position \<open>i\<close> is the promise of that publish with a rejection turned into a resolution;
  \<open>Promise.all\<close> is therefore resolved, with the outcomes of all the publishes, and not
  before the last of them has settled; and the promise that the dispatcher returns
  settles then, resolved with the message with \<open>isDispatched\<close> set to true. On Google
  Cloud and on AWS \<open>saveMessage\<close> makes these calls for the queues it resolves and
  returns this promise.
\<close>

theorem fanout_isolates_failures:
  "fst (dispatch tr m queues calls) = calls @ map (\<lambda>q. (m, qdevice q, qtype q)) queues
   \<and> length (snd (publishLoop tr m queues calls)) = length queues
   \<and> (\<forall>i < length queues.
         snd (publishLoop tr m queues calls) ! i =
           suppressError
             (tr (calls @ map (\<lambda>q. (m, qdevice q, qtype q)) (take i queues))
                 (m, qdevice (queues ! i), qtype (queues ! i))))
   \<and> suppressError (t, Rejected e) = (t, Resolved (Inl e))
   \<and> suppressError (t, Resolved v) = (t, Resolved (Inr v))
   \<and> promiseAll (snd (publishLoop tr m queues calls))
       = (lastSettled (snd (publishLoop tr m queues calls)),
          Resolved (resolvedValues (snd (publishLoop tr m queues calls))))
   \<and> map Resolved (resolvedValues (snd (publishLoop tr m queues calls)))
       = map snd (snd (publishLoop tr m queues calls))
   \<and> (\<forall>p \<in> set (snd (publishLoop tr m queues calls)).
         fst p \<le> fst (snd (dispatch tr m queues calls)))
   \<and> (queues \<noteq> [] \<longrightarrow>
         fst (snd (dispatch tr m queues calls)) \<in> fst ` set (snd (publishLoop tr m queues calls)))
   \<and> snd (snd (dispatch tr m queues calls)) = Resolved (m\<lparr>isDispatched := JBool True\<rparr>)
   \<and> (isGoogleCloud \<or> isAWS \<longrightarrow>
         saveMessage isGoogleCloud isAWS updateMessageHistory tr calls query device ty body
           rootTraceId
         = (let m' = updateMessageHistory
                      \<lparr>msgDevice = device, msgType = ty, msgBody = body, msgQuery = query,
                       msgRootTraceId = rootTraceId, isDispatched = JUndefined\<rparr> device;
                queues' = resolveQueues isGoogleCloud isAWS device ty
            in (calls @ map (\<lambda>q. (m', qdevice q, qtype q)) queues',
                Inr (lastSettled (snd (publishLoop tr m' queues' calls)),
                     Resolved (m'\<lparr>isDispatched := JBool True\<rparr>)))))"
proof -
  have nonempty: "snd (publishLoop tr m queues calls) \<noteq> []" if "queues \<noteq> []"
    using that publishLoop_length [of tr m queues calls] by auto
  have last: "fst (snd (dispatch tr m queues calls))
      \<in> fst ` set (snd (publishLoop tr m queues calls))" if "queues \<noteq> []"
    using lastSettled_mem [OF nonempty [OF that]] by (simp add: dispatch_result)
  have save: "saveMessage isGoogleCloud isAWS updateMessageHistory tr calls query device ty
        body rootTraceId
      = (let m' = updateMessageHistory
                    \<lparr>msgDevice = device, msgType = ty, msgBody = body, msgQuery = query,
                     msgRootTraceId = rootTraceId, isDispatched = JUndefined\<rparr> device;
             queues' = resolveQueues isGoogleCloud isAWS device ty
         in (calls @ map (\<lambda>q. (m', qdevice q, qtype q)) queues',
             Inr (lastSettled (snd (publishLoop tr m' queues' calls)),
                  Resolved (m'\<lparr>isDispatched := JBool True\<rparr>))))"
    if "isGoogleCloud \<or> isAWS"
    by (rule saveMessage_result [OF that])
  show ?thesis
    using last save publishLoop_awaited [of tr m queues calls]
      publishLoop_values [of tr m queues calls]
    by (simp add: dispatch_result publishLoop_length publishLoop_nth lastSettled_ge
        suppressError_def)
qed

theorem fanout_isolates_failures_witness:
  "saveMessage True False (\<lambda>m d. m)
     (\<lambda>calls (m, device, type0).
        if device = JStr ''all'' then (5, Resolved JNull)
        else if type0 = JStr ''gps'' then (2, Rejected (External ''no such queue''))
        else (9, Resolved JNull))
     [] None (JStr ''1A2345'') (JStr ''gps'') 1 JNull
   = ([(\<lparr>msgDevice = JStr ''1A2345'', msgType = JStr ''gps'', msgBody = 1, msgQuery = None,
      msgRootTraceId = JNull, isDispatched = JUndefined\<rparr>, JStr ''all'', JUndefined),
       (\<lparr>msgDevice = JStr ''1A2345'', msgType = JStr ''gps'', msgBody = 1, msgQuery = None,
      msgRootTraceId = JNull, isDispatched = JUndefined\<rparr>, JUndefined, JStr ''gps''),
       (\<lparr>msgDevice = JStr ''1A2345'', msgType = JStr ''gps'', msgBody = 1, msgQuery = None,
      msgRootTraceId = JNull, isDispatched = JUndefined\<rparr>, JStr ''1A2345'', JUndefined)],
      Inr (9, Resolved \<lparr>msgDevice = JStr ''1A2345'', msgType = JStr ''gps'', msgBody = 1, msgQuery = None,
      msgRootTraceId = JNull, isDispatched = JBool True\<rparr>))
   \<and> snd (publishLoop
     (\<lambda>calls (m, device, type0).
        if device = JStr ''all'' then (5, Resolved JNull)
        else if type0 = JStr ''gps'' then (2, Rejected (External ''no such queue''))
        else (9, Resolved JNull))
     \<lparr>msgDevice = JStr ''1A2345'', msgType = JStr ''gps'', msgBody = 1, msgQuery = None,
      msgRootTraceId = JNull, isDispatched = JUndefined\<rparr>
     [\<lparr>qdevice = JStr ''all'', qtype = JUndefined\<rparr>,
      \<lparr>qdevice = JUndefined, qtype = JStr ''gps''\<rparr>,
      \<lparr>qdevice = JStr ''1A2345'', qtype = JUndefined\<rparr>]
     [])
     = [(5, Resolved (Inr JNull)), (2, Resolved (Inl (External ''no such queue''))),
        (9, Resolved (Inr JNull))]"
proof -
  have queues: "resolveQueues True False (JStr ''1A2345'') (JStr ''gps'')
     = [\<lparr>qdevice = JStr ''all'', qtype = JUndefined\<rparr>,
      \<lparr>qdevice = JUndefined, qtype = JStr ''gps''\<rparr>,
      \<lparr>qdevice = JStr ''1A2345'', qtype = JUndefined\<rparr>]"
    by code_simp
  have loop: "snd (publishLoop
     (\<lambda>calls (m, device, type0).
        if device = JStr ''all'' then (5, Resolved JNull)
        else if type0 = JStr ''gps'' then (2, Rejected (External ''no such queue''))
        else (9, Resolved JNull))
     \<lparr>msgDevice = JStr ''1A2345'', msgType = JStr ''gps'', msgBody = 1, msgQuery = None,
      msgRootTraceId = JNull, isDispatched = JUndefined\<rparr>
     [\<lparr>qdevice = JStr ''all'', qtype = JUndefined\<rparr>,
      \<lparr>qdevice = JUndefined, qtype = JStr ''gps''\<rparr>,
      \<lparr>qdevice = JStr ''1A2345'', qtype = JUndefined\<rparr>]
     [])
     = [(5, Resolved (Inr JNull)), (2, Resolved (Inl (External ''no such queue''))),
        (9, Resolved (Inr JNull))]"
    by code_simp
  from fanout_isolates_failures
    [where isGoogleCloud = True and isAWS = False and updateMessageHistory = "\<lambda>m d. m"
       and tr = "(\<lambda>calls (m, device, type0).
        if device = JStr ''all'' then (5, Resolved JNull)
        else if type0 = JStr ''gps'' then (2, Rejected (External ''no such queue''))
        else (9, Resolved JNull))"
       and calls = "[]" and query = None and device = "JStr ''1A2345''"
       and ty = "JStr ''gps''" and body = 1 and rootTraceId = JNull,
     THEN conjunct2, THEN conjunct2, THEN conjunct2, THEN conjunct2, THEN conjunct2,
     THEN conjunct2, THEN conjunct2, THEN conjunct2, THEN conjunct2, THEN conjunct2]
  have "saveMessage True False (\<lambda>m d. m)
     (\<lambda>calls (m, device, type0).
        if device = JStr ''all'' then (5, Resolved JNull)
        else if type0 = JStr ''gps'' then (2, Rejected (External ''no such queue''))
        else (9, Resolved JNull))
     [] None (JStr ''1A2345'') (JStr ''gps'') 1 JNull
   = ([(\<lparr>msgDevice = JStr ''1A2345'', msgType = JStr ''gps'', msgBody = 1, msgQuery = None,
      msgRootTraceId = JNull, isDispatched = JUndefined\<rparr>, JStr ''all'', JUndefined),
       (\<lparr>msgDevice = JStr ''1A2345'', msgType = JStr ''gps'', msgBody = 1, msgQuery = None,
      msgRootTraceId = JNull, isDispatched = JUndefined\<rparr>, JUndefined, JStr ''gps''),
       (\<lparr>msgDevice = JStr ''1A2345'', msgType = JStr ''gps'', msgBody = 1, msgQuery = None,
      msgRootTraceId = JNull, isDispatched = JUndefined\<rparr>, JStr ''1A2345'', JUndefined)],
      Inr (9, Resolved \<lparr>msgDevice = JStr ''1A2345'', msgType = JStr ''gps'', msgBody = 1, msgQuery = None,
      msgRootTraceId = JNull, isDispatched = JBool True\<rparr>))"
    by (simp add: Let_def queues suppressError_def lastSettled_def)
  with loop show ?thesis by simp
qed

text \<open>
  C4. The check of the downlink payload accepts a candidate if and only if, lower-cased,
  it has 16 characters, all of them in \<open>[0-9a-f]\<close>. Any other candidate makes the check
  throw one of the two errors of the check (the specification's InvalidDownlinkPayload);
  \<open>getResponse\<close> then throws as well when a downlink is due, and a response that carries
  downlink data carries a candidate that passed the check.
\<close>

theorem downlink_payload_validation:
  "(validateResult p = Inr () \<longleftrightarrow> specHexPayload (toLowerCase p))
   \<and> (\<not> specHexPayload (toLowerCase p) \<longrightarrow>
        (\<exists>e. validateResult p = Inl e \<and> isInvalidDownlinkPayload e))
   \<and> (\<not> specHexPayload (toLowerCase p) \<and> getProp body ''ack'' \<noteq> JBool False
        \<and> getProp body ''ack'' \<noteq> JStr ''false'' \<longrightarrow>
        (\<exists>e. getResponseWith p device0 body = Inl e \<and> isInvalidDownlinkPayload e))
   \<and> (\<forall>r k x. getResponseWith p device0 body = Inr r \<and> (k, DownlinkData x) \<in> set r \<longrightarrow>
        x = p \<and> specHexPayload (toLowerCase p))"
proof -
  have ok: "validateResult p = Inr () \<longleftrightarrow> specHexPayload (toLowerCase p)"
    by (rule validateResult_ok)
  have bad: "\<exists>e. validateResult p = Inl e \<and> isInvalidDownlinkPayload e"
    if "\<not> specHexPayload (toLowerCase p)"
    using that ok validateResult_cases [of p] validateResult_error [of p] by auto
  have thrown: "\<exists>e. getResponseWith p device0 body = Inl e \<and> isInvalidDownlinkPayload e"
    if "\<not> specHexPayload (toLowerCase p)" "getProp body ''ack'' \<noteq> JBool False"
      "getProp body ''ack'' \<noteq> JStr ''false''"
    using bad [OF that(1)] that(2,3) by (auto simp: getResponseWith_def Let_def)
  have emitted: "x = p \<and> specHexPayload (toLowerCase p)"
    if "getResponseWith p device0 body = Inr r" "(k, DownlinkData x) \<in> set r" for r k x
    using that ok
    by (auto simp: getResponseWith_def Let_def split: if_splits sum.splits)
  show ?thesis
    using ok bad thrown emitted by blast
qed

theorem downlink_payload_validation_witness:
  "validateResult ''0123456789ABCDEF'' = Inr ()
   \<and> validateResult ''0123456789abcdeg'' = Inl (InvalidHexDigit CHR ''g'')
   \<and> validateResult ''0123456789abcde'' = Inl (ResultNot8Bytes ''0123456789abcde'')
   \<and> getResponseWith ''0123456789abcdeg'' (JStr ''1A2345'') [(''ack'', JStr ''true'')]
       = Inl (InvalidHexDigit CHR ''g'')
   \<and> getResponseWith ''0123456789ABCDEF'' (JStr ''1A2345'') [(''ack'', JStr ''true'')]
       = Inr [(''1A2345'', DownlinkData ''0123456789ABCDEF'')]
   \<and> specHexPayload (toLowerCase ''0123456789ABCDEF'')
   \<and> \<not> specHexPayload (toLowerCase ''0123456789abcdeg'')"
proof -
  have v1: "validateResult ''0123456789ABCDEF'' = Inr ()"
    and v2: "validateResult ''0123456789abcdeg'' = Inl (InvalidHexDigit CHR ''g'')"
    and v3: "validateResult ''0123456789abcde'' = Inl (ResultNot8Bytes ''0123456789abcde'')"
    and r2: "getResponseWith ''0123456789abcdeg'' (JStr ''1A2345'') [(''ack'', JStr ''true'')]
              = Inl (InvalidHexDigit CHR ''g'')"
    and r1: "getResponseWith ''0123456789ABCDEF'' (JStr ''1A2345'') [(''ack'', JStr ''true'')]
              = Inr [(''1A2345'', DownlinkData ''0123456789ABCDEF'')]"
    by code_simp+
  from v1 v2 r1 r2 v3
    downlink_payload_validation [of "''0123456789ABCDEF''" "[(''ack'', JStr ''true'')]" "JStr ''1A2345''"]
    downlink_payload_validation [of "''0123456789abcdeg''" "[(''ack'', JStr ''true'')]" "JStr ''1A2345''"]
  show ?thesis by simp
qed

text \<open>
  C5. The claim: for every message whose computed age exceeds 300000 ms, the invocation
  fails with StaleMessage before any publish is initiated.

  As stated it fails off AWS. The guard is behind \<^verbatim>\<open>isAWS && ...\<close>: on Google Cloud the
  message with the time \<^verbatim>\<open>"1000000000"\<close> is published to two queues at a \<open>now\<close> of
  1511714827000, when its age is far above 300000 ms.
\<close>

theorem stale_message_published_counterexample:
  "task True False 1511714827000 (\<lambda>m d. m) (\<lambda>calls call. (0, Resolved JNull)) []
     [[(''time'', JStr ''1000000000'')]] None (JStr ''1A2345'') 0 JNull JNull
   = ([(\<lparr>msgDevice = JStr ''1A2345'', msgType = JNull, msgBody = 1, msgQuery = None,
         msgRootTraceId = JNull, isDispatched = JUndefined\<rparr>, JStr ''all'', JUndefined),
       (\<lparr>msgDevice = JStr ''1A2345'', msgType = JNull, msgBody = 1, msgQuery = None,
         msgRootTraceId = JNull, isDispatched = JUndefined\<rparr>, JStr ''1A2345'', JUndefined)],
      Inr (Some \<lparr>msgDevice = JStr ''1A2345'', msgType = JNull, msgBody = 1, msgQuery = None,
                 msgRootTraceId = JNull, isDispatched = JBool True\<rparr>))
   \<and> getField (fst (parseSIGFOXMessage [[(''time'', JStr ''1000000000'')]] 0))
        (snd (parseSIGFOXMessage [[(''time'', JStr ''1000000000'')]] 0)) ''baseStationTime''
      = JNumber (NumInt 1000000000)
   \<and> messageAge 1511714827000 (JNumber (NumInt 1000000000)) = NumInt 511714827000
   \<and> jsGreater (NumInt 511714827000) (NumInt 300000)"
  by code_simp

text \<open>
  C5, amended. On AWS, when the \<open>baseStationTime\<close> of the normalized body is truthy and
  the age computed from it is above 300000, \<open>task\<close> throws \<open>too_old\<close> with that age and
  the log of publish calls is as it was before: no publish has been made. On Google
  Cloud without AWS the guard does not run: for every body and every \<open>now\<close>, \<open>task\<close>
  publishes the message to each of its queues and resolves to the message with
  \<open>isDispatched\<close> true.
\<close>

theorem stale_message_aborts_before_publish:
  assumes "parseSIGFOXMessage h body0 = (h1, body)"
    and "truthy (getField h1 body ''baseStationTime'')"
    and "jsGreater (messageAge now (getField h1 body ''baseStationTime'')) (NumInt 300000)"
  shows "task isGoogleCloud True now updateMessageHistory tr calls h query device body0 type0
           rootTraceId
         = (calls, Inl (TooOld (messageAge now (getField h1 body ''baseStationTime''))))
    \<and> task True False now' updateMessageHistory' tr' calls' h' query' device' body0' type0'
           rootTraceId'
         = (let m = updateMessageHistory'
                      \<lparr>msgDevice = device', msgType = type0', msgBody = length h',
                       msgQuery = query', msgRootTraceId = rootTraceId',
                       isDispatched = JUndefined\<rparr> device'
            in (calls' @ map (\<lambda>q. (m, qdevice q, qtype q))
                           (resolveQueues True False device' type0'),
                Inr (Some (m\<lparr>isDispatched := JBool True\<rparr>))))"
proof -
  have "freshnessGuard True now (getField h1 body ''baseStationTime'')
          = Inl (TooOld (messageAge now (getField h1 body ''baseStationTime'')))"
    using assms(2,3) by (simp add: freshnessGuard_def Let_def)
  then have rejected: "task isGoogleCloud True now updateMessageHistory tr calls h query device
      body0 type0 rootTraceId
      = (calls, Inl (TooOld (messageAge now (getField h1 body ''baseStationTime''))))"
    by (rule task_rejected [OF assms(1)])
  have guard: "freshnessGuard False now' v = Inr ()" for v
    by (simp add: freshnessGuard_def)
  have "task True False now' updateMessageHistory' tr' calls' h' query' device' body0' type0'
           rootTraceId'
         = (let m = updateMessageHistory'
                      \<lparr>msgDevice = device', msgType = type0', msgBody = length h',
                       msgQuery = query', msgRootTraceId = rootTraceId',
                       isDispatched = JUndefined\<rparr> device'
            in (calls' @ map (\<lambda>q. (m, qdevice q, qtype q))
                           (resolveQueues True False device' type0'),
                Inr (Some (m\<lparr>isDispatched := JBool True\<rparr>))))"
    by (rule task_passed [OF parseSIGFOXMessage_store guard]) simp
  with rejected show ?thesis by simp
qed

theorem stale_message_aborts_before_publish_witness:
  "task False True 1511714827000 (\<lambda>m d. m) (\<lambda>calls call. (0, Resolved JNull)) []
     [[(''time'', JStr ''1000000000'')]] None (JStr ''1A2345'') 0 JNull JNull
   = ([], Inl (TooOld (NumInt 511714827000)))"
proof -
  have p: "parseSIGFOXMessage [[(''time'', JStr ''1000000000'')]] 0
            = ([[(''time'', JStr ''1000000000'')],
                [(''timestamp'', JStr ''1000000000000''),
                 (''baseStationTime'', JNumber (NumInt 1000000000))]], 1)"
    by code_simp
  have b: "getField [[(''time'', JStr ''1000000000'')],
                [(''timestamp'', JStr ''1000000000000''),
                 (''baseStationTime'', JNumber (NumInt 1000000000))]] 1 ''baseStationTime''
            = JNumber (NumInt 1000000000)"
    by code_simp
  have t: "truthy (JNumber (NumInt 1000000000))"
    by code_simp
  have a: "messageAge 1511714827000 (JNumber (NumInt 1000000000)) = NumInt 511714827000"
    by code_simp
  have g: "jsGreater (NumInt 511714827000) (NumInt 300000)"
    by code_simp
  show ?thesis
    using stale_message_aborts_before_publish
      [of "[[(''time'', JStr ''1000000000'')]]" 0 _ 1 1511714827000, OF p, THEN conjunct1]
    by (simp only: b a t g)
qed

text \<open>
  C6. The claim: of \<open>duplicate\<close>, \<open>ack\<close> and \<open>longPolling\<close>, the string \<^verbatim>\<open>"true"\<close> becomes
  true, every other present value becomes false, and an absent field is left untouched.

  As stated it fails for a value that is present and falsy: each conversion is behind
  \<^verbatim>\<open>if (body.duplicate)\<close>, so the empty string stays the empty string.
\<close>

theorem empty_boolean_field_counterexample:
  "lookupField (fst (parseSIGFOXMessage [[(''duplicate'', JStr '''')]] 0))
     (snd (parseSIGFOXMessage [[(''duplicate'', JStr '''')]] 0)) ''duplicate''
   = Some (JStr '''')"
  by code_simp

text \<open>
  C6, amended. For \<open>k\<close> one of \<open>duplicate\<close>, \<open>ack\<close> and \<open>longPolling\<close>: an absent field stays
  absent; the string \<^verbatim>\<open>"true"\<close> becomes the boolean true; every other truthy value (for a
  string: every other string that is not empty) becomes the boolean false; a falsy value
  (the empty string) is left as it is.
\<close>

theorem boolean_fields_normalized:
  assumes "k = ''duplicate'' \<or> k = ''ack'' \<or> k = ''longPolling''"
    and "parseSIGFOXMessage h body0 = (h1, body)"
  shows "(lookupField h body0 k = None \<longrightarrow> lookupField h1 body k = None)
    \<and> (lookupField h body0 k = Some (JStr ''true'') \<longrightarrow> lookupField h1 body k = Some (JBool True))
    \<and> (\<forall>v. lookupField h body0 k = Some v \<and> truthy v \<and> v \<noteq> JStr ''true'' \<longrightarrow>
          lookupField h1 body k = Some (JBool False))
    \<and> (\<forall>v. lookupField h body0 k = Some v \<and> \<not> truthy v \<longrightarrow> lookupField h1 body k = Some v)"
proof -
  from assms(2) have h1: "h1 = h @ [normalizedBody (sourceObject h body0)]"
    and body: "body = length h"
    by (simp_all add: parseSIGFOXMessage_store)
  have "lookupField h1 body k = map_of (normalizedBody (sourceObject h body0)) k"
    by (simp add: h1 body lookupField_new)
  also have "\<dots> = map_option (\<lambda>v. if truthy v then JBool (parseBool v) else v)
                     (map_of (sourceObject h body0) k)"
    by (rule normalizedBody_bool [OF assms(1)])
  finally have out: "lookupField h1 body k =
      map_option (\<lambda>v. if truthy v then JBool (parseBool v) else v) (lookupField h body0 k)"
    by (simp add: lookupField_source)
  show ?thesis
    unfolding out by (auto simp: parseBool_def truthy_def)
qed

theorem boolean_fields_normalized_witness:
  "lookupField
     (fst (parseSIGFOXMessage
        [[(''duplicate'', JStr ''true''), (''ack'', JStr ''false''), (''longPolling'', JStr '''')]] 0))
     (snd (parseSIGFOXMessage
        [[(''duplicate'', JStr ''true''), (''ack'', JStr ''false''), (''longPolling'', JStr '''')]] 0))
     ''ack''
   = Some (JBool False)"
proof -
  have l: "lookupField
      [[(''duplicate'', JStr ''true''), (''ack'', JStr ''false''), (''longPolling'', JStr '''')]] 0
      ''ack'' = Some (JStr ''false'')"
    by code_simp
  have t: "truthy (JStr ''false'')"
    by code_simp
  show ?thesis
    using boolean_fields_normalized
      [of "''ack''"
        "[[(''duplicate'', JStr ''true''), (''ack'', JStr ''false''), (''longPolling'', JStr '''')]]"
        0
        "fst (parseSIGFOXMessage
          [[(''duplicate'', JStr ''true''), (''ack'', JStr ''false''), (''longPolling'', JStr '''')]] 0)"
        "snd (parseSIGFOXMessage
          [[(''duplicate'', JStr ''true''), (''ack'', JStr ''false''), (''longPolling'', JStr '''')]] 0)"]
      l t
    by simp
qed

text \<open>
  C7. The claim: the normalizer does not mutate its input and its output never has a
  \<open>time\<close> key.

  The first half holds for every input: the normalizer writes to a clone only, so the
  store it leaves is the store it was given, every object in its place and unchanged,
  followed by the one new object, which is the output. The second half is what the code
  sets out to do, under the comment
  \<^verbatim>\<open>Delete "time" field because it's a special field in InfluxDB\<close>, and misses: the
  \<^verbatim>\<open>delete body.time\<close> is inside \<^verbatim>\<open>if (body.time)\<close>, so a time that is present and falsy
  (the empty string) is copied to the output and stays there. The output has no \<open>time\<close>
  key exactly when the input has no \<open>time\<close> or a truthy one.
\<close>

theorem normalizer_frame_and_time:
  assumes "parseSIGFOXMessage h body0 = (h1, body)"
  shows "body = length h
    \<and> length h1 = Suc (length h)
    \<and> take (length h) h1 = h
    \<and> (\<forall>a < length h. objectAt h1 a = objectAt h a)
    \<and> lookupField h1 body ''time'' =
        (case lookupField h body0 ''time'' of
           None \<Rightarrow> None
         | Some v \<Rightarrow> if truthy v then None else Some v)"
proof -
  from assms have h1: "h1 = h @ [normalizedBody (sourceObject h body0)]"
    and body: "body = length h"
    by (simp_all add: parseSIGFOXMessage_store)
  have "lookupField h1 body ''time'' = map_of (normalizedBody (sourceObject h body0)) ''time''"
    by (simp add: h1 body lookupField_new)
  also have "\<dots> =
      (case map_of (sourceObject h body0) ''time'' of
         None \<Rightarrow> None
       | Some v \<Rightarrow> if truthy v then None else Some v)"
    by (rule normalizedBody_time)
  finally have "lookupField h1 body ''time'' =
      (case lookupField h body0 ''time'' of
         None \<Rightarrow> None
       | Some v \<Rightarrow> if truthy v then None else Some v)"
    by (simp add: lookupField_source)
  then show ?thesis
    by (simp add: h1 body objectAt_old)
qed

text \<open>
  The input \<^verbatim>\<open>{time: ""}\<close>: the input object is unchanged, and the output has the key
  \<open>time\<close>, with the empty string.
\<close>

theorem normalizer_frame_and_time_witness:
  "parseSIGFOXMessage [[(''time'', JStr '''')]] 0
     = ([[(''time'', JStr '''')], [(''time'', JStr '''')]], 1)
   \<and> objectAt (fst (parseSIGFOXMessage [[(''time'', JStr '''')]] 0)) 0
      = Some [(''time'', JStr '''')]
   \<and> lookupField (fst (parseSIGFOXMessage [[(''time'', JStr '''')]] 0)) 1 ''time''
      = Some (JStr '''')"
proof -
  have p: "parseSIGFOXMessage [[(''time'', JStr '''')]] 0
      = ([[(''time'', JStr '''')], [(''time'', JStr '''')]], 1)"
    by code_simp
  have l: "lookupField [[(''time'', JStr '''')]] 0 ''time'' = Some (JStr '''')"
    by code_simp
  have o: "objectAt [[(''time'', JStr '''')]] 0 = Some [(''time'', JStr '''')]"
    by code_simp
  have t: "\<not> truthy (JStr '''')"
    by code_simp
  show ?thesis
    using normalizer_frame_and_time [OF p] l o t
    by (simp add: p)
qed

text \<open>
  C8. \<open>getResponse\<close> always returns a response, and the response has exactly one entry. Its
  key is the device when the device is truthy (for a device id, a string that is not
  empty: the id itself) and \<^verbatim>\<open>missing_device\<close> otherwise. The same holds of every response
  that \<open>getResponseWith\<close> returns, whatever the result it is given.
\<close>

theorem downlink_response_one_entry:
  "(\<exists>v. getResponse device0 body
          = Inr [(if truthy device0 then toStr device0 else ''missing_device'', v)])
   \<and> (\<forall>r. getResponseWith result device0 body = Inr r \<longrightarrow>
          (\<exists>v. r = [(if truthy device0 then toStr device0 else ''missing_device'', v)]))
   \<and> (d \<noteq> [] \<longrightarrow> (\<exists>v. getResponse (JStr d) body = Inr [(d, v)]))
   \<and> (\<exists>v. getResponse JNull body = Inr [(''missing_device'', v)])
   \<and> (\<exists>v. getResponse JUndefined body = Inr [(''missing_device'', v)])"
proof -
  have hard: "validateResult ''0123456789abcdef'' = Inr ()"
    by code_simp
  have one: "\<exists>v. r = [(if truthy device0 then toStr device0 else ''missing_device'', v)]"
    if "getResponseWith result device0 body = Inr r" for r result device0
    using that
    by (auto simp: getResponseWith_def Let_def toStr_def split: if_splits sum.splits)
  have total: "\<exists>r. getResponse device0 body = Inr r" for device0
    using hard by (auto simp: getResponse_def getResponseWith_def Let_def)
  have main: "\<exists>v. getResponse device0 body
                = Inr [(if truthy device0 then toStr device0 else ''missing_device'', v)]"
    for device0
    using total [of device0] one [of "''0123456789abcdef''" device0]
    by (auto simp: getResponse_def)
  show ?thesis
    using main [of device0] main [of "JStr d"] main [of JNull] main [of JUndefined] one
    by (auto simp: truthy_def toStr_def)
qed

theorem downlink_response_one_entry_witness:
  "getResponse (JStr ''1A2345'') [(''ack'', JStr ''false'')] = Inr [(''1A2345'', NoData)]
   \<and> getResponse (JStr ''1A2345'') [] = Inr [(''1A2345'', DownlinkData ''0123456789abcdef'')]
   \<and> getResponse JNull [(''ack'', JBool False)] = Inr [(''missing_device'', NoData)]"
proof -
  have r1: "getResponse (JStr ''1A2345'') [(''ack'', JStr ''false'')] = Inr [(''1A2345'', NoData)]"
    and r2: "getResponse (JStr ''1A2345'') [] = Inr [(''1A2345'', DownlinkData ''0123456789abcdef'')]"
    and r3: "getResponse JNull [(''ack'', JBool False)] = Inr [(''missing_device'', NoData)]"
    by code_simp+
  from r1 r2 r3
    downlink_response_one_entry [of "JStr ''1A2345''" "[(''ack'', JStr ''false'')]" "''0123456789abcdef''" "''1A2345''"]
  show ?thesis by simp
qed

text \<open>
  C9. On AWS (and not Google Cloud) the queues are the one queue
  \<^verbatim>\<open>{ device: null, type: null }\<close>. On Google Cloud they are \<^verbatim>\<open>{ device: 'all' }\<close> first,
  then \<^verbatim>\<open>{ type }\<close> when the type is truthy, then, last, \<^verbatim>\<open>{ device }\<close> when the device is
  truthy. Null is not truthy, and the type and the device that \<open>main\<close> passes on are
  truthy exactly when they are not null. \<open>saveMessage\<close> publishes to these queues, in this
  order.
\<close>

theorem queue_targets:
  "resolveQueues False True device type0 = [\<lparr>qdevice = JNull, qtype = JNull\<rparr>]
   \<and> resolveQueues True isAWS device type0 =
       \<lparr>qdevice = JStr ''all'', qtype = JUndefined\<rparr>
       # (if truthy type0 then [\<lparr>qdevice = JUndefined, qtype = type0\<rparr>] else [])
       @ (if truthy device then [\<lparr>qdevice = device, qtype = JUndefined\<rparr>] else [])
   \<and> resolveQueues True isAWS JNull JNull = [\<lparr>qdevice = JStr ''all'', qtype = JUndefined\<rparr>]
   \<and> (truthy (mainType query) \<longleftrightarrow> mainType query \<noteq> JNull)
   \<and> (\<forall>d. mainDevice body query = Inr d \<longrightarrow> (truthy d \<longleftrightarrow> d \<noteq> JNull))
   \<and> fst (saveMessage isGoogleCloud isAWS updateMessageHistory tr calls query device type0 body0
            rootTraceId)
       = calls @ map (\<lambda>q. (updateMessageHistory
                               \<lparr>msgDevice = device, msgType = type0, msgBody = body0,
                                msgQuery = query, msgRootTraceId = rootTraceId,
                                isDispatched = JUndefined\<rparr> device,
                             qdevice q, qtype q))
                   (resolveQueues isGoogleCloud isAWS device type0)"
proof -
  have ty: "truthy (mainType query) \<longleftrightarrow> mainType query \<noteq> JNull"
    by (auto simp: mainType_def truthy_def split: option.splits)
  have dev: "truthy d \<longleftrightarrow> d \<noteq> JNull" if "mainDevice body query = Inr d" for d
    using that
    by (auto simp: mainDevice_def queryDevice_def isString_def toStr_def truthy_def
        toUpperCase_empty split: if_splits option.splits jsval.splits)
  show ?thesis
    using ty dev saveMessage_calls [of isGoogleCloud isAWS updateMessageHistory tr calls query device
        type0 body0 rootTraceId]
    by (simp add: resolveQueues_def truthy_def)
qed

theorem queue_targets_witness:
  "mainDevice [(''device'', JStr ''1a2345'')] (Some [(''type'', JStr ''gps'')]) = Inr (JStr ''1A2345'')
   \<and> mainType (Some [(''type'', JStr ''gps'')]) = JStr ''gps''
   \<and> resolveQueues True False (JStr ''1A2345'') (JStr ''gps'')
       = [\<lparr>qdevice = JStr ''all'', qtype = JUndefined\<rparr>,
          \<lparr>qdevice = JUndefined, qtype = JStr ''gps''\<rparr>,
          \<lparr>qdevice = JStr ''1A2345'', qtype = JUndefined\<rparr>]
   \<and> truthy (JStr ''1A2345'')"
proof -
  have d: "mainDevice [(''device'', JStr ''1a2345'')] (Some [(''type'', JStr ''gps'')])
            = Inr (JStr ''1A2345'')"
    and t: "mainType (Some [(''type'', JStr ''gps'')]) = JStr ''gps''"
    by code_simp+
  from d t
    queue_targets [of "JStr ''1A2345''" "JStr ''gps''" False "Some [(''type'', JStr ''gps'')]"
      "[(''device'', JStr ''1a2345'')]"]
  show ?thesis by (simp add: truthy_def)
qed

text \<open>
  C10. The claim: for every payload whose \<open>time\<close> is a string that does not parse as a
  base-10 integer, \<open>baseStationTime\<close> is NaN, the comparison \<open>age > 300000\<close> is false, and
  the message proceeds to the queues however old it is.

  The first part fails for the empty string: it does not parse as an integer, and being
  falsy it is not converted at all, so the output has no \<open>baseStationTime\<close>.
\<close>

theorem empty_time_not_parsed_counterexample:
  "parseIntStr '''' = NumNaN
   \<and> lookupField (fst (parseSIGFOXMessage [[(''time'', JStr '''')]] 0))
        (snd (parseSIGFOXMessage [[(''time'', JStr '''')]] 0)) ''baseStationTime''
      = None"
  by code_simp

text \<open>
  C10, amended. For every payload whose \<open>time\<close> is a string that is not empty and does
  not parse as a base-10 integer (what \<^verbatim>\<open>parseInt(time, 10)\<close> reads after the leading
  white space, the no-break space included, and a sign is not a digit):
  \<open>baseStationTime\<close> is NaN; the age computed from NaN is not above 300000 (and NaN being
  falsy, the guard does not even compute it); the guard passes, on AWS and off it, at
  any \<open>now\<close>; and in a deployment, on Google Cloud or on AWS, \<open>task\<close> publishes to every
  queue and resolves to the message with \<open>isDispatched\<close> true.
\<close>

theorem unparsable_time_is_never_stale:
  assumes "lookupField h body0 ''time'' = Some (JStr s)"
    and "s \<noteq> []"
    and "parseIntStr s = NumNaN"
    and "parseSIGFOXMessage h body0 = (h1, body)"
    and "isGoogleCloud \<or> isAWS"
  shows "lookupField h1 body ''baseStationTime'' = Some (JNumber NumNaN)
    \<and> \<not> jsGreater (messageAge now (JNumber NumNaN)) (NumInt (5 * 60 * 1000))
    \<and> freshnessGuard isAWS now (getField h1 body ''baseStationTime'') = Inr ()
    \<and> task isGoogleCloud isAWS now updateMessageHistory tr calls h query device body0 type0
         rootTraceId =
       (let m = updateMessageHistory
                  \<lparr>msgDevice = device, msgType = type0, msgBody = body, msgQuery = query,
                   msgRootTraceId = rootTraceId, isDispatched = JUndefined\<rparr> device
        in (calls @ map (\<lambda>q. (m, qdevice q, qtype q))
                      (resolveQueues isGoogleCloud isAWS device type0),
            Inr (Some (m\<lparr>isDispatched := JBool True\<rparr>))))"
proof -
  from assms(4) have h1: "h1 = h @ [normalizedBody (sourceObject h body0)]"
    and body: "body = length h"
    by (simp_all add: parseSIGFOXMessage_store)
  from assms(1) have src: "map_of (sourceObject h body0) ''time'' = Some (JStr s)"
    by (simp add: lookupField_source)
  then have time: "getProp (sourceObject h body0) ''time'' = JStr s"
    by (simp add: getProp_def)
  have bst: "lookupField h1 body ''baseStationTime'' = Some (JNumber NumNaN)"
    unfolding h1 body lookupField_new
    using assms(2,3) time
    by (simp add: normalizedBody_baseStationTime truthy_def parseInt_def toStr_def)
  then have field: "getField h1 body ''baseStationTime'' = JNumber NumNaN"
    by (simp add: getField_lookupField)
  have guard: "freshnessGuard isAWS now (getField h1 body ''baseStationTime'') = Inr ()"
    by (simp add: field freshnessGuard_def truthy_def)
  have cmp: "\<not> jsGreater (messageAge now (JNumber NumNaN)) (NumInt (5 * 60 * 1000))"
    by (simp add: messageAge_NumNaN)
  show ?thesis
    using bst cmp guard task_passed [OF assms(4) guard assms(5)] by simp
qed

theorem unparsable_time_is_never_stale_witness:
  "task False True 1511714827000 (\<lambda>m d. m) (\<lambda>calls call. (0, Resolved JNull)) []
     [[(''time'', JStr ''yesterday'')]] None (JStr ''1A2345'') 0 JNull JNull
   = ([(\<lparr>msgDevice = JStr ''1A2345'', msgType = JNull, msgBody = 1, msgQuery = None,
         msgRootTraceId = JNull, isDispatched = JUndefined\<rparr>, JNull, JNull)],
      Inr (Some \<lparr>msgDevice = JStr ''1A2345'', msgType = JNull, msgBody = 1, msgQuery = None,
                 msgRootTraceId = JNull, isDispatched = JBool True\<rparr>))"
proof -
  have l: "lookupField [[(''time'', JStr ''yesterday'')]] 0 ''time'' = Some (JStr ''yesterday'')"
    by code_simp
  have n: "parseIntStr ''yesterday'' = NumNaN"
    by code_simp
  have p: "parseSIGFOXMessage [[(''time'', JStr ''yesterday'')]] 0
      = ([[(''time'', JStr ''yesterday'')],
          [(''timestamp'', JStr ''NaN''), (''baseStationTime'', JNumber NumNaN)]], 1)"
    by code_simp
  have q: "resolveQueues False True (JStr ''1A2345'') JNull = [\<lparr>qdevice = JNull, qtype = JNull\<rparr>]"
    by code_simp
  show ?thesis
    using unparsable_time_is_never_stale
      [OF l _ n p, of False True 1511714827000 "\<lambda>m d. m" "\<lambda>calls call. (0, Resolved JNull)" "[]"
        None "JStr ''1A2345''" JNull JNull]
    by (simp add: q)
qed

end
